theory Spec2Isabelle
  imports Complex_Main
begin

section \<open>Floating-point values\<close>

text \<open>
  A float64 of NumPy or pandas is a finite number or one of the three IEEE specials.
  A finite result is computed exactly and then brought into the range of binary64 as
  round-to-nearest does (\<open>to_float\<close>): a magnitude of \<open>2\<^sup>1\<^sup>0\<^sup>2\<^sup>4 - 2\<^sup>9\<^sup>7\<^sup>0\<close> or more
  overflows to an infinity, a magnitude between the largest finite double and that
  bound becomes the largest finite double.  Rounding inside the range (and with it
  underflow) is not modelled, and zero has no sign (a division of a non-zero number by
  zero takes the sign of the numerator, as it does for the positive zero that
  \<open>x + (-x)\<close> produces).  NaN and the infinities arise and propagate as in IEEE 754.
\<close>

datatype fl = Fin real | PInf | NInf | NaN

fun isnan :: "fl \<Rightarrow> bool" where
  "isnan NaN = True"
| "isnan _ = False"

fun isfinite :: "fl \<Rightarrow> bool" where
  "isfinite (Fin _) = True"
| "isfinite _ = False"

fun fneg :: "fl \<Rightarrow> fl" where
  "fneg (Fin a) = Fin (- a)"
| "fneg PInf = NInf"
| "fneg NInf = PInf"
| "fneg NaN = NaN"

fun fabs :: "fl \<Rightarrow> fl" where
  "fabs (Fin a) = Fin \<bar>a\<bar>"
| "fabs PInf = PInf"
| "fabs NInf = PInf"
| "fabs NaN = NaN"

definition float_max :: real where
  \<comment> \<open>the largest finite double, \<open>np.finfo(np.float64).max\<close>\<close>
  "float_max = (2 ^ 53 - 1) * 2 ^ 971"

definition overflow_threshold :: real where
  \<comment> \<open>half-way between \<open>float_max\<close> and \<open>2\<^sup>1\<^sup>0\<^sup>2\<^sup>4\<close>; it rounds to infinity\<close>
  "overflow_threshold = 2 ^ 1024 - 2 ^ 970"

definition to_float :: "real \<Rightarrow> fl" where
  "to_float r =
     (if overflow_threshold \<le> r then PInf
      else if r \<le> - overflow_threshold then NInf
      else Fin (max (- float_max) (min float_max r)))"

fun fadd :: "fl \<Rightarrow> fl \<Rightarrow> fl" where
  "fadd (Fin a) (Fin b) = to_float (a + b)"
| "fadd NaN _ = NaN"
| "fadd _ NaN = NaN"
| "fadd PInf NInf = NaN"
| "fadd NInf PInf = NaN"
| "fadd PInf _ = PInf"
| "fadd _ PInf = PInf"
| "fadd NInf _ = NInf"
| "fadd _ NInf = NInf"

definition fsub :: "fl \<Rightarrow> fl \<Rightarrow> fl" where
  "fsub a b = fadd a (fneg b)"

text \<open>An infinity times a finite factor: NaN for the factor 0, else the sign rule.\<close>

definition inf_times :: "fl \<Rightarrow> real \<Rightarrow> fl" where
  "inf_times i a = (if a = 0 then NaN else if 0 < a then i else fneg i)"

fun fmul :: "fl \<Rightarrow> fl \<Rightarrow> fl" where
  "fmul (Fin a) (Fin b) = to_float (a * b)"
| "fmul NaN _ = NaN"
| "fmul _ NaN = NaN"
| "fmul (Fin a) i = inf_times i a"
| "fmul i (Fin b) = inf_times i b"
| "fmul PInf PInf = PInf"
| "fmul NInf NInf = PInf"
| "fmul PInf NInf = NInf"
| "fmul NInf PInf = NInf"

text \<open>
  Division as NumPy does it: no exception, \<open>0/0\<close> is NaN, a non-zero finite number
  over zero is an infinity, a finite number over an infinity is zero.
\<close>

fun fdiv :: "fl \<Rightarrow> fl \<Rightarrow> fl" where
  "fdiv (Fin a) (Fin b) =
     (if b \<noteq> 0 then to_float (a / b)
      else if a = 0 then NaN else if 0 < a then PInf else NInf)"
| "fdiv NaN _ = NaN"
| "fdiv _ NaN = NaN"
| "fdiv (Fin a) _ = Fin 0"
| "fdiv PInf (Fin b) = (if 0 \<le> b then PInf else NInf)"
| "fdiv NInf (Fin b) = (if 0 \<le> b then NInf else PInf)"
| "fdiv _ _ = NaN"

fun fsqrt :: "fl \<Rightarrow> fl" where
  "fsqrt (Fin a) = (if 0 \<le> a then Fin (sqrt a) else NaN)"
| "fsqrt PInf = PInf"
| "fsqrt _ = NaN"

text \<open>The comparison \<open><\<close> of IEEE: false as soon as one side is NaN.\<close>

fun flt :: "fl \<Rightarrow> fl \<Rightarrow> bool" where
  "flt (Fin a) (Fin b) = (a < b)"
| "flt NaN _ = False"
| "flt _ NaN = False"
| "flt PInf _ = False"
| "flt _ NInf = False"
| "flt _ PInf = True"
| "flt NInf _ = True"

definition fgt :: "fl \<Rightarrow> fl \<Rightarrow> bool" where
  "fgt a b = flt b a"

text \<open>Python's builtin \<open>max(a, b)\<close> and \<open>min(a, b)\<close>: the first argument unless
  the second compares strictly better.\<close>

definition py_max :: "fl \<Rightarrow> fl \<Rightarrow> fl" where
  "py_max a b = (if fgt b a then b else a)"

definition py_min :: "fl \<Rightarrow> fl \<Rightarrow> fl" where
  "py_min a b = (if flt b a then b else a)"

text \<open>\<open>np.maximum\<close> and \<open>np.minimum\<close> propagate NaN.\<close>

definition np_maximum :: "fl \<Rightarrow> fl \<Rightarrow> fl" where
  "np_maximum a b = (if isnan a \<or> isnan b then NaN else if flt a b then b else a)"

definition np_minimum :: "fl \<Rightarrow> fl \<Rightarrow> fl" where
  "np_minimum a b = (if isnan a \<or> isnan b then NaN else if flt b a then b else a)"

definition np_clip :: "fl \<Rightarrow> fl \<Rightarrow> fl \<Rightarrow> fl" where
  "np_clip x lo hi = np_minimum (np_maximum x lo) hi"

text \<open>The float literals of the source, as the doubles they denote.\<close>

definition eps10 :: real where
  \<comment> \<open>\<open>1e-10\<close>: \<open>0x1.b7cdfd9d7bdbbp-34\<close>\<close>
  "eps10 = 7737125245533627 / 2 ^ 86"

definition lit_1e6 :: real where
  \<comment> \<open>\<open>1e-6\<close>: \<open>0x1.0c6f7a0b5ed8dp-20\<close>\<close>
  "lit_1e6 = 4722366482869645 / 2 ^ 72"

definition lit_0001 :: real where
  \<comment> \<open>\<open>0.001\<close>: \<open>0x1.0624dd2f1a9fcp-10\<close>\<close>
  "lit_0001 = 1152921504606847 / 2 ^ 60"

section \<open>NumPy array operations\<close>

datatype error = ValueError | ZeroDivisionError

text \<open>
  An elementwise binary operation on two one-dimensional arrays: equal lengths pair up,
  an array of length one is broadcast, any other pair of lengths raises ValueError.
\<close>

definition broadcast2 :: "('a \<Rightarrow> 'b \<Rightarrow> 'c) \<Rightarrow> 'a list \<Rightarrow> 'b list \<Rightarrow> error + 'c list" where
  "broadcast2 f xs ys =
     (if length xs = length ys then Inr (map2 f xs ys)
      else if length xs = 1 then Inr (map (f (hd xs)) ys)
      else if length ys = 1 then Inr (map (\<lambda>x. f x (hd ys)) xs)
      else Inl ValueError)"

text \<open>
  \<open>np.nan_to_num(x, copy, nan=0.0, posinf=None, neginf=None)\<close>: NaN becomes \<open>nan\<close>;
  with \<open>posinf\<close> and \<open>neginf\<close> left at None, the infinities become the largest and
  the smallest finite double.
\<close>

fun nan_to_num :: "fl \<Rightarrow> fl" where
  "nan_to_num NaN = Fin 0"
| "nan_to_num PInf = Fin float_max"
| "nan_to_num NInf = Fin (- float_max)"
| "nan_to_num (Fin a) = Fin a"

definition np_sum :: "fl list \<Rightarrow> fl" where
  "np_sum xs = foldl fadd (Fin 0) xs"

definition np_mean :: "fl list \<Rightarrow> fl" where
  "np_mean xs = fdiv (np_sum xs) (Fin (real (length xs)))"

text \<open>\<open>np.std\<close> is the population standard deviation (\<open>ddof = 0\<close>).\<close>

definition np_std :: "fl list \<Rightarrow> fl" where
  "np_std xs =
     (let m = np_mean xs
      in fsqrt (np_mean (map (\<lambda>x. fmul (fsub x m) (fsub x m)) xs)))"

fun scan :: "(fl \<Rightarrow> fl \<Rightarrow> fl) \<Rightarrow> fl \<Rightarrow> fl list \<Rightarrow> fl list" where
  "scan f acc [] = []"
| "scan f acc (x # xs) = f acc x # scan f (f acc x) xs"

text \<open>\<open>ufunc.accumulate\<close>: the first element, then the running application of \<open>f\<close>.\<close>

fun accumulate :: "(fl \<Rightarrow> fl \<Rightarrow> fl) \<Rightarrow> fl list \<Rightarrow> fl list" where
  "accumulate f [] = []"
| "accumulate f (x # xs) = x # scan f x xs"

definition np_cumprod :: "fl list \<Rightarrow> fl list" where
  "np_cumprod xs = accumulate fmul xs"

text \<open>\<open>np.min\<close> raises ValueError on an empty array and propagates NaN.\<close>

definition np_min :: "fl list \<Rightarrow> error + fl" where
  "np_min xs = (case xs of [] \<Rightarrow> Inl ValueError | x # ys \<Rightarrow> Inr (foldl np_minimum x ys))"

section \<open>Trading metrics (train_models.py)\<close>

datatype pyval = PyInt int | PyFloat fl

type_synonym report = "string \<rightharpoonup> pyval"

text \<open>
  Lines 146 to 154 of \<open>calculate_trading_metrics\<close>: positions, strategy returns, the
  call \<open>np.nan_to_num(strategy_returns, 0)\<close> (its second positional parameter is
  \<open>copy\<close>, so the replacement values are the defaults) and the finiteness mask.
\<close>

definition positions_of :: "int list \<Rightarrow> int list" where
  "positions_of y_pred = map (\<lambda>y. 2 * y - 1) y_pred"

definition strategy_returns :: "int list \<Rightarrow> fl list \<Rightarrow> error + fl list" where
  "strategy_returns y_pred returns =
     (case broadcast2 (\<lambda>p r. fmul (Fin (real_of_int p)) r) (positions_of y_pred) returns of
        Inl e \<Rightarrow> Inl e
      | Inr sr \<Rightarrow> Inr (filter isfinite (map nan_to_num sr)))"

text \<open>Lines 175 to 177: the drawdown series of the strategy returns.\<close>

definition drawdown_of :: "fl list \<Rightarrow> fl list" where
  "drawdown_of sr =
     (let cumulative = np_cumprod (map (\<lambda>r. fadd (Fin 1) r) sr);
          running_max = accumulate np_maximum cumulative
      in map2 (\<lambda>c m. fdiv (fsub c m) (fadd m (Fin eps10))) cumulative running_max)"

definition calculate_trading_metrics ::
  "int list \<Rightarrow> int list \<Rightarrow> fl list \<Rightarrow> fl list \<Rightarrow> error + report" where
  "calculate_trading_metrics y_true y_pred y_proba returns =
     (case strategy_returns y_pred returns of
        Inl e \<Rightarrow> Inl e
      | Inr sr \<Rightarrow>
          if length sr = 0 then
            Inr (map_of
              [(''sharpe_ratio'', PyInt 0),
               (''max_drawdown'', PyInt 0),
               (''win_rate'', PyInt 0),
               (''profit_factor'', PyInt 1),
               (''total_trades'', PyInt 0),
               (''avg_return'', PyInt 0),
               (''volatility'', PyInt 0),
               (''calmar_ratio'', PyInt 0),
               (''sortino_ratio'', PyInt 0)])
          else
            let mean_return = np_mean sr;
                std_return = np_std sr;
                sharpe_ratio =
                  fmul (fdiv mean_return (fadd std_return (Fin eps10))) (Fin (sqrt 252))
            in case np_min (drawdown_of sr) of
                 Inl e \<Rightarrow> Inl e
               | Inr max_drawdown \<Rightarrow>
                   let wins = length (filter (\<lambda>r. fgt r (Fin 0)) sr);
                       total_trades = length (filter (\<lambda>r. fgt (fabs r) (Fin lit_1e6)) sr);
                       win_rate = fdiv (Fin (real wins)) (Fin (real (max total_trades 1)));
                       gross_profit = np_sum (filter (\<lambda>r. fgt r (Fin 0)) sr);
                       gross_loss = fabs (np_sum (filter (\<lambda>r. flt r (Fin 0)) sr));
                       profit_factor = fdiv gross_profit (py_max gross_loss (Fin eps10));
                       volatility = fmul std_return (Fin (sqrt 252));
                       annual_return = fmul mean_return (Fin 252);
                       calmar_ratio =
                         fdiv annual_return (fabs (py_min max_drawdown (Fin (- lit_0001))));
                       downside_returns = filter (\<lambda>r. flt r (Fin 0)) sr;
                       downside_std =
                         (if length downside_returns > 0 then np_std downside_returns
                          else Fin eps10);
                       sortino_ratio =
                         fmul (fdiv mean_return (fadd downside_std (Fin eps10))) (Fin (sqrt 252))
                   in Inr (map_of
                        [(''sharpe_ratio'', PyFloat (np_clip sharpe_ratio (Fin (- 10)) (Fin 10))),
                         (''max_drawdown'', PyFloat max_drawdown),
                         (''win_rate'', PyFloat win_rate),
                         (''profit_factor'', PyFloat (np_clip profit_factor (Fin 0) (Fin 10))),
                         (''total_trades'', PyInt (int total_trades)),
                         (''avg_return'', PyFloat mean_return),
                         (''volatility'', PyFloat volatility),
                         (''calmar_ratio'', PyFloat (np_clip calmar_ratio (Fin (- 10)) (Fin 10))),
                         (''sortino_ratio'', PyFloat (np_clip sortino_ratio (Fin (- 10)) (Fin 10)))]))"

text \<open>Reading one key of the returned dictionary (None when the call raised).\<close>

definition metric :: "string \<Rightarrow> error + report \<Rightarrow> pyval option" where
  "metric k res = (case res of Inl e \<Rightarrow> None | Inr m \<Rightarrow> m k)"


section \<open>The drawdown, as the specification words it\<close>

text \<open>
  The specification describes \<open>max_drawdown\<close> as the minimum over time of
  \<open>(cumulative_product(1 + strategy_returns) - running_max) / (running_max + \<epsilon>)\<close>.
  These definitions follow those words, index by index, on real numbers; they are
  compared with \<open>drawdown_of\<close> and \<open>np_min\<close> below.  \<open>in_range\<close>: a real number
  within the range of the finite doubles.  \<open>no_overflow\<close>: every \<open>1 + r\<close> and every
  cumulative product is in that range.  \<open>drawdown_in_range\<close>: so are the differences,
  the denominators and the quotients of the drawdown.
\<close>

definition in_range :: "real \<Rightarrow> bool" where
  "in_range r = (\<bar>r\<bar> \<le> float_max)"








section \<open>pandas Series\<close>

text \<open>
  A Series is the list of its values; all the Series of one call share the index of the
  frame they come from, so an elementwise operation pairs equal positions.  An unset
  value is NaN.
\<close>

type_synonym series = "fl list"

text \<open>\<open>Series.shift(k)\<close>: the value \<open>k\<close> positions earlier (later, for a negative
  \<open>k\<close>), NaN where there is none.\<close>

definition shift :: "int \<Rightarrow> series \<Rightarrow> series" where
  "shift k xs =
     map (\<lambda>i. let j = int i - k
              in if 0 \<le> j \<and> j < int (length xs) then xs ! nat j else NaN)
       [0..<length xs]"

definition diff :: "series \<Rightarrow> series" where
  "diff xs = map2 fsub xs (shift 1 xs)"

text \<open>Forward fill: a NaN takes the last value seen before it, if there is one.\<close>

fun ffill_from :: "fl \<Rightarrow> series \<Rightarrow> series" where
  "ffill_from prev [] = []"
| "ffill_from prev (x # xs) =
     (if isnan x then prev # ffill_from prev xs else x # ffill_from x xs)"

definition ffill :: "series \<Rightarrow> series" where
  "ffill xs = ffill_from NaN xs"

text \<open>
  \<open>Series.pct_change(p)\<close> is \<open>x / x.shift(p) - 1\<close>, computed on the forward-filled
  series (the default \<open>fill_method\<close> of pandas before 3.0; on a series whose only NaN are
  leading ones the fill changes nothing).
\<close>

definition pct_change :: "int \<Rightarrow> series \<Rightarrow> series" where
  "pct_change p xs =
     (let d = ffill xs in map2 (\<lambda>a b. fsub (fdiv a b) (Fin 1)) d (shift p d))"

fun np_sign :: "fl \<Rightarrow> fl" where
  "np_sign (Fin a) = Fin (sgn a)"
| "np_sign PInf = Fin 1"
| "np_sign NInf = Fin (- 1)"
| "np_sign NaN = NaN"

fun np_log :: "fl \<Rightarrow> fl" where
  "np_log (Fin a) = (if 0 < a then Fin (ln a) else if a = 0 then NInf else NaN)"
| "np_log PInf = PInf"
| "np_log _ = NaN"

text \<open>\<open>Series.cumsum()\<close> skips NaN: a NaN entry stays NaN and adds nothing.\<close>

fun cumsum_from :: "fl \<Rightarrow> series \<Rightarrow> series" where
  "cumsum_from acc [] = []"
| "cumsum_from acc (x # xs) =
     (if isnan x then NaN # cumsum_from acc xs
      else fadd acc x # cumsum_from (fadd acc x) xs)"

definition cumsum :: "series \<Rightarrow> series" where
  "cumsum xs = cumsum_from (Fin 0) xs"

text \<open>
  Before a rolling or exponentially weighted aggregation pandas replaces the infinities
  of the series by NaN.
\<close>

definition inf_to_nan :: "fl \<Rightarrow> fl" where
  "inf_to_nan x = (if isfinite x then x else NaN)"

text \<open>
  \<open>Series.rolling(window, min_periods)\<close>: at each position the statistic of the
  observations (neither NaN nor infinite) among the last \<open>window\<close> values, NaN when
  there are fewer than \<open>min_periods\<close> of them.  The statistic is computed from the
  window; pandas updates running sums instead, which is the same function of the window
  as long as no running sum overflows.
\<close>

definition window_at :: "nat \<Rightarrow> series \<Rightarrow> nat \<Rightarrow> series" where
  "window_at w xs i = drop (Suc i - w) (take (Suc i) xs)"

definition rolling :: "nat \<Rightarrow> nat \<Rightarrow> (series \<Rightarrow> fl) \<Rightarrow> series \<Rightarrow> series" where
  "rolling w min_periods stat xs =
     (let values = map inf_to_nan xs
      in map (\<lambda>i. let obs = filter (\<lambda>x. \<not> isnan x) (window_at w values i)
                  in if min_periods \<le> length obs then stat obs else NaN)
           [0..<length xs])"

text \<open>The sample standard deviation (\<open>ddof = 1\<close>) of \<open>rolling(...).std()\<close>.\<close>

definition sample_std :: "series \<Rightarrow> fl" where
  "sample_std obs =
     (let n = length obs; m = np_mean obs
      in if n \<le> 1 then NaN
         else fsqrt (fdiv (np_sum (map (\<lambda>x. fmul (fsub x m) (fsub x m)) obs))
                          (Fin (real (n - 1)))))"

text \<open>
  \<open>Series.ewm(alpha, adjust, min_periods).mean()\<close>, as the recurrence pandas runs
  (\<open>ignore_na = False\<close>): \<open>weighted\<close> is the running average, \<open>old_wt\<close> the weight
  it carries, \<open>nobs\<close> the number of observations so far.  With \<open>adjust = True\<close> the
  result is \<open>\<Sum> (1-\<alpha>)\<^sup>k x\<^sub>t\<^sub>-\<^sub>k / \<Sum> (1-\<alpha>)\<^sup>k\<close>; with \<open>adjust = False\<close> it is
  \<open>y\<^sub>t = (1-\<alpha>) y\<^sub>t\<^sub>-\<^sub>1 + \<alpha> x\<^sub>t\<close> from \<open>y\<^sub>0 = x\<^sub>0\<close>.  An observation equal to the
  running average leaves it as it is (\<open>if weighted != cur\<close>).
\<close>

fun ewm_steps :: "real \<Rightarrow> bool \<Rightarrow> nat \<Rightarrow> fl \<Rightarrow> real \<Rightarrow> nat \<Rightarrow> series \<Rightarrow> series" where
  "ewm_steps \<alpha> adjust minp weighted old_wt nobs [] = []"
| "ewm_steps \<alpha> adjust minp weighted old_wt nobs (cur # rest) =
     (let is_observation = \<not> isnan cur;
          nobs' = (if is_observation then Suc nobs else nobs);
          new_wt = (if adjust then 1 else \<alpha>);
          old_wt1 = old_wt * (1 - \<alpha>);
          weighted' =
            (if isnan weighted then (if is_observation then cur else weighted)
             else if is_observation then
               (if weighted = cur then weighted
                else fdiv (fadd (fmul (Fin old_wt1) weighted) (fmul (Fin new_wt) cur))
                          (Fin (old_wt1 + new_wt)))
             else weighted);
          old_wt' =
            (if isnan weighted then old_wt
             else if is_observation then (if adjust then old_wt1 + new_wt else 1)
             else old_wt1)
      in (if minp \<le> nobs' then weighted' else NaN)
         # ewm_steps \<alpha> adjust minp weighted' old_wt' nobs' rest)"

definition ewm_mean :: "real \<Rightarrow> bool \<Rightarrow> nat \<Rightarrow> series \<Rightarrow> series" where
  "ewm_mean \<alpha> adjust min_periods xs =
     (case map inf_to_nan xs of
        [] \<Rightarrow> []
      | x # rest \<Rightarrow>
          let minp = max min_periods 1;
              nobs = (if isnan x then 0 else 1)
          in (if minp \<le> nobs then x else NaN) # ewm_steps \<alpha> adjust minp x 1 nobs rest)"

text \<open>Row-wise \<open>max(axis=1)\<close> and \<open>min(axis=1)\<close> of a few columns: NaN is skipped.\<close>

definition nanmax :: "fl list \<Rightarrow> fl" where
  "nanmax xs =
     (case filter (\<lambda>x. \<not> isnan x) xs of
        [] \<Rightarrow> NaN
      | y # ys \<Rightarrow> foldl (\<lambda>a b. if flt a b then b else a) y ys)"

definition nanmin :: "fl list \<Rightarrow> fl" where
  "nanmin xs =
     (case filter (\<lambda>x. \<not> isnan x) xs of
        [] \<Rightarrow> NaN
      | y # ys \<Rightarrow> foldl (\<lambda>a b. if flt b a then b else a) y ys)"

text \<open>A comparison of two Series, as the integers of \<open>.astype(int)\<close>.\<close>

definition gt_flag :: "series \<Rightarrow> series \<Rightarrow> int list" where
  "gt_flag xs ys = map2 (\<lambda>x y. if fgt x y then 1 else 0) xs ys"

definition lt_flag :: "series \<Rightarrow> series \<Rightarrow> int list" where
  "lt_flag xs ys = map2 (\<lambda>x y. if flt x y then 1 else 0) xs ys"

section \<open>Technical indicators (feature_engineering.py)\<close>

definition ebind :: "error + 'a \<Rightarrow> ('a \<Rightarrow> error + 'b) \<Rightarrow> error + 'b" where
  "ebind r f = (case r of Inl e \<Rightarrow> Inl e | Inr x \<Rightarrow> f x)"

text \<open>
  \<open>rolling(window=period, min_periods=1)\<close> raises ValueError for a negative window,
  and for the window 0, which is smaller than \<open>min_periods\<close>.
\<close>

definition sma :: "series \<Rightarrow> int \<Rightarrow> error + series" where
  "sma series period =
     (if period < 1 then Inl ValueError
      else Inr (rolling (nat period) 1 np_mean series))"

text \<open>\<open>ewm(span=period)\<close> raises ValueError unless \<open>span \<ge> 1\<close>; \<open>\<alpha> = 2 / (span + 1)\<close>.\<close>

definition ema :: "series \<Rightarrow> int \<Rightarrow> error + series" where
  "ema series period =
     (if period < 1 then Inl ValueError
      else Inr (ewm_mean (2 / (real_of_int period + 1)) False 1 series))"

text \<open>
  In \<open>rsi\<close>, \<open>1/period\<close> raises ZeroDivisionError for the period 0, and
  \<open>ewm(alpha=...)\<close> raises ValueError unless \<open>0 < alpha \<le> 1\<close>, that is for a
  negative period.  \<open>adjust\<close> is left at its default, True.
\<close>

definition rsi :: "series \<Rightarrow> int \<Rightarrow> error + series" where
  "rsi series period =
     (let delta = diff series;
          gain = map (\<lambda>d. if fgt d (Fin 0) then d else Fin 0) delta;
          loss = map (\<lambda>d. if flt d (Fin 0) then fneg d else Fin 0) delta
      in if period = 0 then Inl ZeroDivisionError
         else if period < 0 then Inl ValueError
         else
           let \<alpha> = 1 / real_of_int period;
               avg_gain = ewm_mean \<alpha> True (nat period) gain;
               avg_loss = ewm_mean \<alpha> True (nat period) loss;
               rs = map2 (\<lambda>g l. fdiv g (fadd l (Fin eps10))) avg_gain avg_loss
           in Inr (map (\<lambda>r. fsub (Fin 100) (fdiv (Fin 100) (fadd (Fin 1) r))) rs))"

definition macd :: "series \<Rightarrow> int \<Rightarrow> int \<Rightarrow> int \<Rightarrow> error + series \<times> series \<times> series" where
  "macd series fast slow signal =
     ebind (ema series fast) (\<lambda>ema_fast.
     ebind (ema series slow) (\<lambda>ema_slow.
       let macd_line = map2 fsub ema_fast ema_slow
       in ebind (ema macd_line signal) (\<lambda>signal_line.
            let histogram = map2 fsub macd_line signal_line
            in Inr (macd_line, signal_line, histogram))))"

text \<open>\<open>rolling(window=period)\<close> has \<open>min_periods = window\<close>.\<close>

definition bollinger_bands :: "series \<Rightarrow> nat \<Rightarrow> real \<Rightarrow> error + series \<times> series \<times> series" where
  "bollinger_bands series period std_dev =
     ebind (sma series (int period)) (\<lambda>middle.
       let std = rolling period period sample_std series;
           upper = map2 (\<lambda>m s. fadd m (fmul (Fin std_dev) s)) middle std;
           lower = map2 (\<lambda>m s. fsub m (fmul (Fin std_dev) s)) middle std
       in Inr (upper, middle, lower))"

definition true_range :: "series \<Rightarrow> series \<Rightarrow> series \<Rightarrow> series" where
  "true_range high low close =
     (let tr1 = map2 fsub high low;
          tr2 = map fabs (map2 fsub high (shift 1 close));
          tr3 = map fabs (map2 fsub low (shift 1 close))
      in map (\<lambda>(a, b, c). nanmax [a, b, c]) (zip tr1 (zip tr2 tr3)))"

definition atr :: "series \<Rightarrow> series \<Rightarrow> series \<Rightarrow> nat \<Rightarrow> series" where
  "atr high low close period = rolling period period np_mean (true_range high low close)"

definition adx :: "series \<Rightarrow> series \<Rightarrow> series \<Rightarrow> nat \<Rightarrow> error + series" where
  "adx high low close period =
     (let plus_dm0 = diff high;
          minus_dm0 = map fneg (diff low);
          plus_dm = map2 (\<lambda>p m. if fgt p m \<and> fgt p (Fin 0) then p else Fin 0) plus_dm0 minus_dm0;
          minus_dm = map2 (\<lambda>m p. if fgt m p \<and> fgt m (Fin 0) then m else Fin 0) minus_dm0 plus_dm;
          tr = atr high low close 1
      in ebind (ema plus_dm (int period)) (\<lambda>ema_plus.
         ebind (ema tr (int period)) (\<lambda>ema_tr.
         ebind (ema minus_dm (int period)) (\<lambda>ema_minus.
           let plus_di = map2 (\<lambda>p t. fdiv (fmul (Fin 100) p) (fadd t (Fin eps10))) ema_plus ema_tr;
               minus_di = map2 (\<lambda>m t. fdiv (fmul (Fin 100) m) (fadd t (Fin eps10))) ema_minus ema_tr;
               dx = map2 (\<lambda>p m. fdiv (fmul (Fin 100) (fabs (fsub p m)))
                                       (fadd (fadd p m) (Fin eps10))) plus_di minus_di
           in ema dx (int period)))))"

definition obv :: "series \<Rightarrow> series \<Rightarrow> series" where
  "obv close volume =
     (let direction = map np_sign (diff close)
      in cumsum (map2 fmul volume direction))"

text \<open>A frame of named columns: what the helper functions return and assign.\<close>

fun str_nat :: "nat \<Rightarrow> string" where
  "str_nat n =
     (if n < 10 then [''0123456789'' ! n]
      else str_nat (n div 10) @ [''0123456789'' ! (n mod 10)])"

definition calculate_returns :: "series \<Rightarrow> nat list \<Rightarrow> (string \<times> series) list" where
  "calculate_returns close periods =
     concat (map (\<lambda>p.
       [(''returns_'' @ str_nat p @ ''d'', pct_change (int p) close),
        (''log_returns_'' @ str_nat p @ ''d'',
           map np_log (map2 fdiv close (shift (int p) close)))]) periods)"

definition calculate_momentum :: "series \<Rightarrow> nat list \<Rightarrow> (string \<times> series) list" where
  "calculate_momentum close periods =
     concat (map (\<lambda>p.
       [(''momentum_'' @ str_nat p @ ''d'', map2 fsub close (shift (int p) close)),
        (''roc_'' @ str_nat p @ ''d'',
           map2 (\<lambda>c s. fmul (fdiv (fsub c s) (fadd s (Fin eps10))) (Fin 100))
             close (shift (int p) close))]) periods)"

definition calculate_volatility :: "series \<Rightarrow> nat list \<Rightarrow> (string \<times> series) list" where
  "calculate_volatility returns periods =
     map (\<lambda>p.
       (''volatility_'' @ str_nat p @ ''d'',
          map (\<lambda>s. fmul s (Fin (sqrt 252))) (rolling p p sample_std returns))) periods"

text \<open>
  The rolling skewness and kurtosis are computed inside pandas; they enter as the two
  statistics \<open>skew\<close> and \<open>kurt\<close> of a window's observations, about which nothing is
  assumed.
\<close>

record rolling_stats =
  skew :: "series \<Rightarrow> fl"
  kurt :: "series \<Rightarrow> fl"

definition calculate_statistical_features ::
  "rolling_stats \<Rightarrow> series \<Rightarrow> nat \<Rightarrow> (string \<times> series) list" where
  "calculate_statistical_features lib returns window =
     [(''skewness'', rolling window window (skew lib) returns),
      (''kurtosis'', rolling window window (kurt lib) returns),
      (''zscore'',
         map2 (\<lambda>d s. fdiv d (fadd s (Fin eps10)))
           (map2 fsub returns (rolling window window np_mean returns))
           (rolling window window sample_std returns))]"

section \<open>The feature table\<close>

text \<open>One bar of the input frame; the column \<open>open\<close> is the field \<open>open_price\<close>.\<close>

record bar =
  date :: int
  open_price :: fl
  high :: fl
  low :: fl
  close :: fl
  volume :: fl
  symbol :: string
  asset_class :: string

datatype cell = Num fl | IntC int | Txt string | Day int


record frame =
  nrows :: nat
  cols :: "(string \<times> cell list) list"

definition num_cols :: "(string \<times> series) list \<Rightarrow> (string \<times> cell list) list" where
  "num_cols cs = map (\<lambda>(name, s). (name, map Num s)) cs"

definition engineer_features :: "rolling_stats \<Rightarrow> bar list \<Rightarrow> error + frame" where
  "engineer_features lib df0 =
     (let df = sort_key date df0;
          close = map bar.close df;
          high = map bar.high df;
          low = map bar.low df;
          volume = map bar.volume df;
          open_price = map bar.open_price df;
          returns_df = calculate_returns close [1, 2, 3, 5, 10, 20];
          daily_returns = pct_change 1 close
      in
      ebind (sma close 5) (\<lambda>sma_5. ebind (ema close 5) (\<lambda>ema_5.
      ebind (sma close 10) (\<lambda>sma_10. ebind (ema close 10) (\<lambda>ema_10.
      ebind (sma close 20) (\<lambda>sma_20. ebind (ema close 20) (\<lambda>ema_20.
      ebind (sma close 50) (\<lambda>sma_50. ebind (ema close 50) (\<lambda>ema_50.
      let ratio = (\<lambda>xs ys. map2 (\<lambda>x y. fdiv x (fadd y (Fin eps10))) xs ys)
      in
      ebind (rsi close 7) (\<lambda>rsi_7.
      ebind (rsi close 14) (\<lambda>rsi_14.
      ebind (rsi close 21) (\<lambda>rsi_21.
      let momentum_df = calculate_momentum close [5, 10, 20]
      in
      ebind (macd close 12 26 9) (\<lambda>(macd_line, signal_line, histogram).
      let vol_df = calculate_volatility daily_returns [5, 10, 20];
          atr_5 = atr high low close 5;
          atr_10 = atr high low close 10;
          atr_14 = atr high low close 14
      in
      ebind (bollinger_bands close 20 2) (\<lambda>(bb_upper, bb_middle, bb_lower).
      let bb_position =
            map2 (\<lambda>c (u, l). fdiv (fsub c l) (fadd (fsub u l) (Fin eps10)))
              close (zip bb_upper bb_lower);
          bb_width =
            map2 (\<lambda>m (u, l). fdiv (fsub u l) (fadd m (Fin eps10)))
              bb_middle (zip bb_upper bb_lower)
      in
      ebind (adx high low close 14) (\<lambda>adx_14.
      let above_sma5 = gt_flag close sma_5;
          above_sma10 = gt_flag close sma_10;
          above_sma20 = gt_flag close sma_20;
          above_sma50 = gt_flag close sma_50;
          trend_strength =
            map2 (\<lambda>(a, b) (c, d). Fin (real_of_int (a + b + c + d) / 4))
              (zip above_sma5 above_sma10) (zip above_sma20 above_sma50)
      in
      ebind (sma volume 5) (\<lambda>volume_sma_5.
      ebind (sma volume 10) (\<lambda>volume_sma_10.
      let obv_values = obv close volume;
          body = map2 fsub close open_price;
          range_hl = map2 (\<lambda>h l. fadd (fsub h l) (Fin eps10)) high low;
          top = map2 (\<lambda>c opn. nanmax [c, opn]) close open_price;
          bottom = map2 (\<lambda>c opn. nanmin [c, opn]) close open_price;
          stats_df = calculate_statistical_features lib daily_returns 20
      in
      Inr \<lparr>nrows = length df,
           cols =
             [(''date'', map (\<lambda>b. Day (date b)) df),
              (''symbol'', map (\<lambda>b. Txt (symbol b)) df),
              (''asset_class'', map (\<lambda>b. Txt (asset_class b)) df),
              (''close'', map Num close)]
             @ num_cols returns_df
             @ num_cols
               [(''sma_5'', sma_5), (''ema_5'', ema_5),
                (''sma_10'', sma_10), (''ema_10'', ema_10),
                (''sma_20'', sma_20), (''ema_20'', ema_20),
                (''sma_50'', sma_50), (''ema_50'', ema_50),
                (''price_to_sma5'', ratio close sma_5),
                (''price_to_sma10'', ratio close sma_10),
                (''price_to_sma20'', ratio close sma_20),
                (''price_to_sma50'', ratio close sma_50),
                (''sma_5_10_cross'', ratio sma_5 sma_10),
                (''sma_10_20_cross'', ratio sma_10 sma_20),
                (''sma_20_50_cross'', ratio sma_20 sma_50),
                (''rsi_7'', rsi_7), (''rsi_14'', rsi_14), (''rsi_21'', rsi_21)]
             @ num_cols momentum_df
             @ num_cols
               [(''macd'', macd_line),
                (''macd_signal'', signal_line),
                (''macd_histogram'', histogram),
                (''macd_cross'', map2 fsub macd_line signal_line)]
             @ num_cols vol_df
             @ num_cols
               [(''atr_5'', atr_5), (''atr_10'', atr_10), (''atr_14'', atr_14),
                (''atr_pct_5'', ratio atr_5 close),
                (''atr_pct_14'', ratio atr_14 close),
                (''bb_position'', bb_position),
                (''bb_width'', bb_width),
                (''adx_14'', adx_14),
                (''trend_strength'', trend_strength),
                (''volume_sma_5'', volume_sma_5),
                (''volume_sma_10'', volume_sma_10),
                (''volume_ratio'', ratio volume volume_sma_10),
                (''obv'', obv_values),
                (''obv_change'', pct_change 5 obv_values),
                (''body_ratio'', map2 fdiv body range_hl),
                (''upper_shadow'', map2 fdiv (map2 fsub high top) range_hl),
                (''lower_shadow'', map2 fdiv (map2 fsub bottom low) range_hl)]
             @ [(''higher_high'', map IntC (gt_flag high (shift 1 high))),
                (''lower_low'', map IntC (lt_flag low (shift 1 low))),
                (''higher_close'', map IntC (gt_flag close (shift 1 close)))]
             @ num_cols stats_df
             @ [(''target'', map IntC (gt_flag (shift (- 1) close) close)),
                (''target_return'',
                   map Num (map (\<lambda>x. fmul x (Fin (- 1))) (pct_change (- 1) close)))]\<rparr>
      )))))))))))))))))"









section \<open>The indicators, as the specification words them\<close>

text \<open>The arithmetic mean of the \<open>m\<close> values that end at position \<open>i\<close>.\<close>

definition trailing_mean :: "real list \<Rightarrow> nat \<Rightarrow> nat \<Rightarrow> real" where
  "trailing_mean xs i m = (\<Sum>j<m. xs ! (i - j)) / real m"

text \<open>
  On-balance volume at \<open>i\<close>: the sum of \<open>sign(close[j] - close[j-1]) \<cdot> volume[j]\<close>
  over the positions \<open>j\<close> from 1 to \<open>i\<close>, the first position contributing nothing.
\<close>

definition obv_spec :: "real list \<Rightarrow> real list \<Rightarrow> nat \<Rightarrow> real" where
  "obv_spec cs vs i = (\<Sum>j = 1..i. sgn (cs ! j - cs ! (j - 1)) * vs ! j)"

text \<open>
  The same sum as floating point adds it up, term after term from \<open>j = 1\<close>: it is the
  number above as long as no partial sum leaves the range of the finite doubles.
\<close>

definition float_sum :: "real list \<Rightarrow> fl" where
  "float_sum ys = foldl fadd (Fin 0) (map Fin ys)"

definition obv_float :: "real list \<Rightarrow> real list \<Rightarrow> nat \<Rightarrow> fl" where
  "obv_float cs vs i = float_sum (map (\<lambda>j. sgn (cs ! j - cs ! (j - 1)) * vs ! j) [1..<Suc i])"

text \<open>Reading one column of a returned frame (None when the call raised).\<close>

definition column :: "string \<Rightarrow> error + frame \<Rightarrow> cell list option" where
  "column name res = (case res of Inl e \<Rightarrow> None | Inr fr \<Rightarrow> map_of (cols fr) name)"


text \<open>
  Two inputs used below.  \<open>two_bars\<close>: one symbol, two days, the close going from 1 to
  2.  \<open>flat_bar d\<close>: day \<open>d\<close> of a market that does not move; \<open>zero_stats\<close> stands
  for rolling statistics that are always set.
\<close>

definition two_bars :: "bar list" where
  "two_bars =
     [\<lparr>date = 1, open_price = Fin 1, high = Fin 1, low = Fin 1, close = Fin 1,
       volume = Fin 10, symbol = ''A'', asset_class = ''stock''\<rparr>,
      \<lparr>date = 2, open_price = Fin 2, high = Fin 2, low = Fin 2, close = Fin 2,
       volume = Fin 10, symbol = ''A'', asset_class = ''stock''\<rparr>]"



text \<open>
  \<open>holds_from k P xs\<close>: from position \<open>k\<close> on, every value of the series is finite
  and satisfies \<open>P\<close>.  \<open>regular_stats\<close>: the skewness and kurtosis are set on
  every window of 20 finite values.  \<open>trend_bar d\<close>: day \<open>d\<close> of a market that rises
  by one each day.
\<close>

definition holds_from :: "nat \<Rightarrow> (real \<Rightarrow> bool) \<Rightarrow> series \<Rightarrow> bool" where
  "holds_from k P xs = (\<forall>i<length xs. k \<le> i \<longrightarrow> (\<exists>v. xs ! i = Fin v \<and> P v))"

definition regular_stats :: "rolling_stats \<Rightarrow> bool" where
  "regular_stats lib =
     (\<forall>obs. length obs = 20 \<and> list_all isfinite obs
            \<longrightarrow> \<not> isnan (skew lib obs) \<and> \<not> isnan (kurt lib obs))"

definition trend_bar :: "nat \<Rightarrow> bar" where
  "trend_bar d =
     \<lparr>date = int d, open_price = Fin (100 + real d), high = Fin (101 + real d),
      low = Fin (99 + real d), close = Fin (100 + real d),
      volume = Fin 1000, symbol = ''A'', asset_class = ''stock''\<rparr>"

text \<open>\<open>set_from k xs\<close>: the series is set (not NaN) from position \<open>k\<close> on.\<close>

definition set_from :: "nat \<Rightarrow> series \<Rightarrow> bool" where
  "set_from k xs = (\<forall>i<length xs. k \<le> i \<longrightarrow> \<not> isnan (xs ! i))"

text \<open>
  Regular input: every bar has a positive finite close, finite open, high and low with
  \<open>high \<ge> low\<close>, and a non-negative finite volume; the on-balance volume, taken in date
  order, is finite and different from 0 after the first bar; the rolling skewness and
  kurtosis of the daily returns are set from position 20 on.
\<close>

fun fpositive :: "fl \<Rightarrow> bool" where
  "fpositive (Fin a) = (0 < a)"
| "fpositive _ = False"

fun fnonneg :: "fl \<Rightarrow> bool" where
  "fnonneg (Fin a) = (0 \<le> a)"
| "fnonneg _ = False"

fun fnonzero :: "fl \<Rightarrow> bool" where
  "fnonzero (Fin a) = (a \<noteq> 0)"
| "fnonzero _ = False"

definition regular_bar :: "bar \<Rightarrow> bool" where
  "regular_bar b =
     (fpositive (close b) \<and> isfinite (open_price b) \<and> isfinite (high b) \<and> isfinite (low b)
      \<and> fnonneg (fsub (high b) (low b)) \<and> fnonneg (volume b))"

definition regular_bars :: "rolling_stats \<Rightarrow> bar list \<Rightarrow> bool" where
  "regular_bars lib bars =
     (let bs = sort_key date bars;
          daily_returns = pct_change 1 (map close bs)
      in list_all regular_bar bs
         \<and> list_all fnonzero (drop 1 (obv (map close bs) (map volume bs)))
         \<and> list_all (\<lambda>x. \<not> isnan x) (drop 20 (rolling 20 20 (skew lib) daily_returns))
         \<and> list_all (\<lambda>x. \<not> isnan x) (drop 20 (rolling 20 20 (kurt lib) daily_returns)))"

section \<open>The range of finite values\<close>

lemma float_max_pos: "0 < float_max"
  by (simp add: float_max_def)

lemma float_max_less_threshold: "float_max < overflow_threshold"
  by (simp add: float_max_def overflow_threshold_def)

lemma to_float_id: "\<bar>r\<bar> \<le> float_max \<Longrightarrow> to_float r = Fin r"
  using float_max_less_threshold by (auto simp: to_float_def)

lemma float_max_large: "2 ^ 1000 \<le> float_max"
  by (simp add: float_max_def)

lemma to_float_small: "\<bar>r\<bar> \<le> 2 ^ 1000 \<Longrightarrow> to_float r = Fin r"
  using float_max_large by (intro to_float_id) linarith

lemma to_float_in_range: "in_range r \<Longrightarrow> to_float r = Fin r"
  unfolding in_range_def by (rule to_float_id)

lemma isnan_to_float [simp]: "isnan (to_float r) = False"
  by (simp add: to_float_def)

lemma to_float_zero [simp]: "to_float 0 = Fin 0"
  using float_max_pos by (intro to_float_id) simp


lemma to_float_nonneg:
  "0 \<le> r \<Longrightarrow> to_float r = PInf \<or> (\<exists>v. to_float r = Fin v \<and> 0 \<le> v \<and> v \<le> float_max)"
  using float_max_pos float_max_less_threshold by (auto simp: to_float_def)

section \<open>Shape of the intermediate arrays\<close>

lemma all_finite_map_Fin: "\<forall>x\<in>set xs. isfinite x \<Longrightarrow> \<exists>rs. xs = map Fin rs"
proof (induction xs)
  case Nil
  then show ?case by simp
next
  case (Cons x xs)
  then obtain rs where rs: "xs = map Fin rs" by auto
  from Cons.prems obtain a where "x = Fin a" by (cases x) auto
  with rs have "x # xs = map Fin (a # rs)" by simp
  then show ?case by (rule exI)
qed

lemma strategy_returns_finite:
  assumes "strategy_returns y_pred returns = Inr sr"
  shows "\<exists>rs. sr = map Fin rs"
proof -
  from assms have "\<forall>x\<in>set sr. isfinite x"
    by (auto simp: strategy_returns_def split: sum.splits)
  then show ?thesis by (rule all_finite_map_Fin)
qed

lemma length_scan [simp]: "length (scan f a xs) = length xs"
  by (induction xs arbitrary: a) auto

lemma length_accumulate [simp]: "length (accumulate f xs) = length xs"
  by (cases xs) auto

lemma length_drawdown_of [simp]: "length (drawdown_of sr) = length sr"
  by (simp add: drawdown_of_def Let_def np_cumprod_def)

lemma np_min_nonempty: "xs \<noteq> [] \<Longrightarrow> \<exists>v. np_min xs = Inr v"
  by (cases xs) (auto simp: np_min_def)

lemma np_min_drawdown_of:
  assumes "rs \<noteq> []"
  shows "\<exists>md. np_min (drawdown_of (map Fin rs)) = Inr md"
proof -
  have "length (drawdown_of (map Fin rs)) \<noteq> 0" using assms by simp
  then have "drawdown_of (map Fin rs) \<noteq> []" by (simp only: length_0_conv not_False_eq_True)
  then show ?thesis by (rule np_min_nonempty)
qed

lemma filter_gt_Fin:
  "filter (\<lambda>r. fgt r (Fin c)) (map Fin rs) = map Fin (filter (\<lambda>r. c < r) rs)"
  by (induction rs) (auto simp: fgt_def)

lemma filter_abs_gt_Fin:
  "filter (\<lambda>r. fgt (fabs r) (Fin c)) (map Fin rs) = map Fin (filter (\<lambda>r. c < \<bar>r\<bar>) rs)"
  by (induction rs) (auto simp: fgt_def)

section \<open>The degenerate report\<close>

text \<open>
  C1. When no strategy return is left after the finiteness filter,
  \<open>calculate_trading_metrics\<close> returns the fixed report: the nine keys, each with its
  default (the integers 0 and, for \<open>profit_factor\<close>, 1), and no other key.
\<close>

theorem default_report_on_empty:
  assumes "strategy_returns y_pred returns = Inr []"
  shows "\<exists>m. calculate_trading_metrics y_true y_pred y_proba returns = Inr m
           \<and> dom m = {''sharpe_ratio'', ''max_drawdown'', ''win_rate'', ''profit_factor'',
                      ''total_trades'', ''avg_return'', ''volatility'', ''calmar_ratio'',
                      ''sortino_ratio''}
           \<and> m ''sharpe_ratio'' = Some (PyInt 0)
           \<and> m ''max_drawdown'' = Some (PyInt 0)
           \<and> m ''win_rate'' = Some (PyInt 0)
           \<and> m ''profit_factor'' = Some (PyInt 1)
           \<and> m ''total_trades'' = Some (PyInt 0)
           \<and> m ''avg_return'' = Some (PyInt 0)
           \<and> m ''volatility'' = Some (PyInt 0)
           \<and> m ''calmar_ratio'' = Some (PyInt 0)
           \<and> m ''sortino_ratio'' = Some (PyInt 0)"
  using assms unfolding calculate_trading_metrics_def
  by (simp add: dom_map_of_conv_image_fst insert_commute)

theorem default_report_on_empty_witness:
  "strategy_returns [] [] = Inr []
   \<and> (\<exists>m. calculate_trading_metrics [] [] [] [] = Inr m
          \<and> m ''profit_factor'' = Some (PyInt 1) \<and> m ''win_rate'' = Some (PyInt 0))"
proof -
  have h: "strategy_returns [] [] = Inr []"
    by (simp add: strategy_returns_def broadcast2_def positions_of_def)
  from default_report_on_empty [OF h, of "[]" "[]"] h show ?thesis by blast
qed

section \<open>Non-finite strategy returns\<close>

text \<open>
  C6. The strategy returns are \<open>positions \<cdot> returns\<close> with every non-finite entry
  replaced by 0.  The code does so for NaN only: the call
  \<open>np.nan_to_num(strategy_returns, 0)\<close> passes 0 as \<open>copy\<close>, so an infinite entry
  becomes the largest finite double and is then kept by the finiteness mask.  A long
  position on an infinite return gives the strategy return \<open>float_max\<close>, not 0.
\<close>

theorem infinite_return_becomes_float_max:
  "strategy_returns [1] [PInf] = Inr [Fin float_max] \<and> 0 < float_max"
  by (simp add: strategy_returns_def broadcast2_def positions_of_def inf_times_def
      float_max_def)

section \<open>Win rate\<close>

lemma win_rate_value:
  assumes sr: "strategy_returns y_pred returns = Inr (map Fin rs)" and ne: "rs \<noteq> []"
  shows "metric ''win_rate'' (calculate_trading_metrics y_true y_pred y_proba returns)
           = Some (PyFloat (to_float (real (length (filter (\<lambda>r. 0 < r) rs))
                                 / real (max (length (filter (\<lambda>r. lit_1e6 < \<bar>r\<bar>) rs)) 1))))"
proof -
  from np_min_drawdown_of [OF ne] obtain md
    where md: "np_min (drawdown_of (map Fin rs)) = Inr md" by blast
  show ?thesis
    using md ne unfolding calculate_trading_metrics_def sr metric_def
    by (simp add: Let_def filter_gt_Fin filter_abs_gt_Fin)
qed

lemma sr_two_tiny_wins:
  "strategy_returns [1, 1] [Fin (1 / 2 ^ 24), Fin (1 / 2 ^ 24)]
     = Inr (map Fin [1 / 2 ^ 24, 1 / 2 ^ 24])"
  by (simp add: strategy_returns_def broadcast2_def positions_of_def to_float_small)

text \<open>
  C4. \<open>win_rate\<close> is \<open>count(sr > 0) / max(count(|sr| > 1e-6), 1)\<close>
  (\<open>win_rate_value\<close>), and it is meant to lie in \<open>[0, 1]\<close>.  The two counts use
  different thresholds: a positive strategy return of at most \<open>1e-6\<close> is counted as a
  win but not as a trade.  Two long positions on the return \<open>2\<^sup>-\<^sup>2\<^sup>4\<close> (about
  \<open>6e-8\<close>) give two wins, no trade, and a win rate of 2.
\<close>

theorem win_rate_above_one:
  "metric ''win_rate''
     (calculate_trading_metrics [1, 1] [1, 1] [Fin 1, Fin 1] [Fin (1 / 2 ^ 24), Fin (1 / 2 ^ 24)])
   = Some (PyFloat (Fin 2)) \<and> \<not> (2 :: real) \<le> 1"
  using win_rate_value [OF sr_two_tiny_wins, of "[1, 1]" "[Fin 1, Fin 1]"]
  by (simp add: lit_1e6_def to_float_small)

section \<open>Maximum drawdown\<close>



lemma np_maximum_Fin [simp]: "np_maximum (Fin a) (Fin b) = Fin (max a b)"
  by (simp add: np_maximum_def max_def)

lemma np_minimum_Fin [simp]: "np_minimum (Fin a) (Fin b) = Fin (min a b)"
  by (auto simp: np_minimum_def min_def)















lemma max_drawdown_value:
  assumes sr: "strategy_returns y_pred returns = Inr (map Fin rs)" and ne: "rs \<noteq> []"
    and md: "np_min (drawdown_of (map Fin rs)) = Inr md"
  shows "metric ''max_drawdown'' (calculate_trading_metrics y_true y_pred y_proba returns)
           = Some (PyFloat md)"
  using md ne unfolding calculate_trading_metrics_def sr metric_def
  by (simp add: Let_def)

lemma eps10_pos: "0 < eps10"
  by (simp add: eps10_def)

lemma eps10_small: "eps10 < 1"
  by (simp add: eps10_def)










lemma in_range_small: "\<bar>r\<bar> \<le> 2 ^ 1000 \<Longrightarrow> in_range r"
  unfolding in_range_def using float_max_large by linarith





text \<open>
  Two long positions on the return \<open>2\<^sup>7\<^sup>0\<^sup>0\<close>: no return is below \<open>-1\<close>, the
  cumulative product overflows at the second step, and the drawdown there is
  \<open>\<infinity> - \<infinity>\<close>.
\<close>

lemma sr_overflow:
  "strategy_returns [1, 1] [Fin (2 ^ 700), Fin (2 ^ 700)] = Inr (map Fin [2 ^ 700, 2 ^ 700])"
  by (simp add: strategy_returns_def broadcast2_def positions_of_def to_float_small)

lemma drawdown_overflow:
  "np_min (drawdown_of (map Fin [2 ^ 700, 2 ^ 700])) = Inr NaN"
proof -
  define B :: real where "B = 2 ^ 700"
  have a: "fadd (Fin 1) (Fin B) = Fin (1 + B)"
    unfolding B_def by (simp add: to_float_small)
  have "overflow_threshold \<le> (1 + B) * (1 + B)"
    unfolding B_def by (simp add: overflow_threshold_def)
  then have b: "fmul (Fin (1 + B)) (Fin (1 + B)) = PInf"
    by (simp add: to_float_def)
  have "np_min (drawdown_of (map Fin [B, B])) = Inr NaN"
    by (simp add: drawdown_of_def np_cumprod_def a b fsub_def np_min_def np_minimum_def
        np_maximum_def del: fadd.simps(1) fmul.simps(1) fdiv.simps(1))
  then show ?thesis unfolding B_def .
qed

lemma max_drawdown_overflow:
  "metric ''max_drawdown''
     (calculate_trading_metrics [1, 1] [1, 1] [Fin 1, Fin 1] [Fin (2 ^ 700), Fin (2 ^ 700)])
   = Some (PyFloat NaN)"
  by (rule max_drawdown_value [OF sr_overflow _ drawdown_overflow]) simp
section \<open>Simple moving average\<close>

lemma inf_to_nan_Fin [simp]: "inf_to_nan (Fin a) = Fin a"
  by (simp add: inf_to_nan_def)

lemma inf_to_nan_NaN [simp]: "inf_to_nan NaN = NaN"
  by (simp add: inf_to_nan_def)

lemma inf_to_nan_PInf [simp]: "inf_to_nan PInf = NaN"
  by (simp add: inf_to_nan_def)

lemma inf_to_nan_NInf [simp]: "inf_to_nan NInf = NaN"
  by (simp add: inf_to_nan_def)

lemma inf_to_nan_comp_Fin [simp]: "inf_to_nan \<circ> Fin = Fin"
  by (rule ext) simp

lemma map_inf_to_nan_Fin: "map inf_to_nan (map Fin xs) = map Fin xs"
  by simp

lemma foldl_fadd_Fin:
  "\<bar>a\<bar> + sum_list (map abs ys) \<le> float_max \<Longrightarrow>
     foldl fadd (Fin a) (map Fin ys) = Fin (a + sum_list ys)"
proof (induction ys arbitrary: a)
  case Nil
  then show ?case by simp
next
  case (Cons y ys)
  have n: "0 \<le> sum_list (map abs ys)" by (rule sum_list_nonneg) auto
  have "\<bar>a + y\<bar> \<le> \<bar>a\<bar> + \<bar>y\<bar>" by (rule abs_triangle_ineq)
  with Cons.prems n have s: "\<bar>a + y\<bar> \<le> float_max"
    and r: "\<bar>a + y\<bar> + sum_list (map abs ys) \<le> float_max"
    by simp_all
  from s have "fadd (Fin a) (Fin y) = Fin (a + y)" by (simp add: to_float_id)
  with Cons.IH [OF r] show ?case by (simp add: add.assoc)
qed

lemma np_sum_Fin:
  "sum_list (map abs ys) \<le> float_max \<Longrightarrow> np_sum (map Fin ys) = Fin (sum_list ys)"
  using foldl_fadd_Fin [of 0 ys] by (simp add: np_sum_def)

lemma sum_list_abs: "\<bar>sum_list ys\<bar> \<le> sum_list (map abs ys)" for ys :: "real list"
  by (rule sum_list_abs)

lemma np_mean_Fin:
  assumes "ys \<noteq> []" and "sum_list (map abs ys) \<le> float_max"
  shows "np_mean (map Fin ys) = Fin (sum_list ys / real (length ys))"
proof -
  have l: "1 \<le> real (length ys)" using assms(1) by (cases ys) simp_all
  have "\<bar>sum_list ys / real (length ys)\<bar> = \<bar>sum_list ys\<bar> / real (length ys)" by simp
  also have "\<dots> \<le> \<bar>sum_list ys\<bar>" using l by (simp add: divide_le_eq mult_le_cancel_left1)
  also have "\<dots> \<le> sum_list (map abs ys)" by (rule sum_list_abs)
  finally have "\<bar>sum_list ys / real (length ys)\<bar> \<le> float_max" using assms(2) by simp
  then show ?thesis using assms by (simp add: np_mean_def np_sum_Fin to_float_id)
qed

lemma window_at_Fin: "window_at w (map Fin xs) i = map Fin (drop (Suc i - w) (take (Suc i) xs))"
  by (simp add: window_at_def take_map drop_map)

lemma filter_not_nan_Fin: "filter (\<lambda>x. \<not> isnan x) (map Fin ys) = map Fin ys"
  by (induction ys) simp_all

lemma sum_list_window:
  assumes "i < length xs" and "0 < w"
  shows "sum_list (drop (Suc i - w) (take (Suc i) xs)) = (\<Sum>j<min (Suc i) w. xs ! (i - j))"
proof -
  let ?a = "Suc i - w"
  have len: "length (drop ?a (take (Suc i) xs)) = min (Suc i) w"
    using assms by (auto simp: min_def)
  have "sum_list (drop ?a (take (Suc i) xs))
          = (\<Sum>k<min (Suc i) w. drop ?a (take (Suc i) xs) ! k)"
    using len by (simp add: sum_list_sum_nth atLeast0LessThan)
  also have "\<dots> = (\<Sum>k<min (Suc i) w. xs ! (?a + k))"
  proof (rule sum.cong)
    fix k assume "k \<in> {..<min (Suc i) w}"
    then have k: "?a + k < Suc i" using assms(2) by (auto simp: min_def split: if_splits)
    have "?a \<le> length (take (Suc i) xs)" using assms by simp
    then have "drop ?a (take (Suc i) xs) ! k = take (Suc i) xs ! (?a + k)" by (rule nth_drop)
    also have "\<dots> = xs ! (?a + k)" using k by (rule nth_take)
    finally show "drop ?a (take (Suc i) xs) ! k = xs ! (?a + k)" .
  qed simp
  also have "\<dots> = (\<Sum>j<min (Suc i) w. xs ! (i - j))"
    by (rule sum.reindex_bij_witness [where i = "\<lambda>j. min (Suc i) w - 1 - j"
          and j = "\<lambda>k. min (Suc i) w - 1 - k"]) (auto simp: min_def)
  finally show ?thesis .
qed

text \<open>A window of at most \<open>c\<close> values, each at most \<open>M / c\<close> in magnitude.\<close>

lemma sum_abs_bound:
  fixes ys :: "real list"
  assumes b: "\<forall>y\<in>set ys. c * \<bar>y\<bar> \<le> M" and l: "real (length ys) \<le> c" and c: "0 < c"
    and M: "0 \<le> M"
  shows "sum_list (map abs ys) \<le> M"
proof -
  have "sum_list (map abs ys) \<le> sum_list (map (\<lambda>y. M / c) ys)"
  proof (rule sum_list_mono)
    fix y assume "y \<in> set ys"
    with b have "c * \<bar>y\<bar> \<le> M" by blast
    with c show "\<bar>y\<bar> \<le> M / c" by (simp add: le_divide_eq mult.commute)
  qed
  also have "\<dots> = real (length ys) * (M / c)" by (simp add: sum_list_triv)
  also have "\<dots> \<le> c * (M / c)" using l M c by (intro mult_right_mono) simp_all
  also have "\<dots> = M" using c by simp
  finally show ?thesis .
qed

lemma window_sum_bound:
  fixes xs :: "real list"
  assumes b: "\<forall>x\<in>set xs. real w * \<bar>x\<bar> \<le> float_max" and w: "0 < w"
  shows "sum_list (map abs (drop (Suc i - w) (take (Suc i) xs))) \<le> float_max"
proof (rule sum_abs_bound [where c = "real w"])
  show "\<forall>y\<in>set (drop (Suc i - w) (take (Suc i) xs)). real w * \<bar>y\<bar> \<le> float_max"
    using b by (meson in_set_dropD in_set_takeD)
  show "real (length (drop (Suc i - w) (take (Suc i) xs))) \<le> real w" by simp
  show "0 < real w" using w by simp
  show "0 \<le> float_max" using float_max_pos by simp
qed

lemma rolling_mean_nth:
  assumes i: "i < length xs" and w: "0 < w"
    and b: "\<forall>x\<in>set xs. real w * \<bar>x\<bar> \<le> float_max"
  shows "rolling w 1 np_mean (map Fin xs) ! i = Fin (trailing_mean xs i (min (Suc i) w))"
proof -
  let ?ys = "drop (Suc i - w) (take (Suc i) xs)"
  have len: "length ?ys = min (Suc i) w" using i w by (auto simp: min_def)
  then have ne: "?ys \<noteq> []" using w by auto
  have "rolling w 1 np_mean (map Fin xs) ! i = np_mean (map Fin ?ys)"
    using i ne by (simp add: rolling_def window_at_Fin filter_not_nan_Fin Let_def Suc_le_eq)
  also have "\<dots> = Fin (sum_list ?ys / real (length ?ys))"
    using ne window_sum_bound [OF b w] by (rule np_mean_Fin)
  also have "\<dots> = Fin (trailing_mean xs i (min (Suc i) w))"
    unfolding len trailing_mean_def sum_list_window [OF i w] ..
  finally show ?thesis .
qed

lemma sma_values:
  assumes p: "1 \<le> period" and b: "\<forall>x\<in>set xs. real_of_int period * \<bar>x\<bar> \<le> float_max"
  shows "\<exists>out. sma (map Fin xs) period = Inr out \<and> length out = length xs
           \<and> (\<forall>i<length xs. out ! i = Fin (trailing_mean xs i (min (i + 1) (nat period))))"
proof -
  have w: "0 < nat period" using p by simp
  have b': "\<forall>x\<in>set xs. real (nat period) * \<bar>x\<bar> \<le> float_max" using b p by simp
  have "\<forall>i<length xs. rolling (nat period) 1 np_mean (map Fin xs) ! i
               = Fin (trailing_mean xs i (min (i + 1) (nat period)))"
  proof (intro allI impI)
    fix i assume "i < length xs"
    from rolling_mean_nth [OF this w b']
    show "rolling (nat period) 1 np_mean (map Fin xs) ! i
               = Fin (trailing_mean xs i (min (i + 1) (nat period)))" by simp
  qed
  moreover have "length (rolling (nat period) 1 np_mean (map Fin xs)) = length xs"
    by (simp add: rolling_def)
  moreover have "sma (map Fin xs) period = Inr (rolling (nat period) 1 np_mean (map Fin xs))"
    using p by (simp add: sma_def)
  ultimately show ?thesis by blast
qed

text \<open>
  C9. For a series of finite values without a missing one, each of magnitude at most
  \<open>float_max / (2 \<cdot> period)\<close> (so that no window sum comes near the overflow), and a
  period of at least 1, \<open>sma(series, period)\<close> has the length of the series and its
  value at \<open>i\<close> is the arithmetic mean of the trailing \<open>min(i+1, period)\<close> values, so
  it is set from index 0.  (A period below 1 raises ValueError.)  The instance below is
  the scenario of the specification: for the closes 10, 11, 12, 11, 10, 9, 10, 11, 12, 13
  and the period 3, the value is 11 at index 2 and 12 at index 9.
\<close>

theorem sma_trailing_mean:
  assumes "1 \<le> period" and "\<forall>x\<in>set xs. 2 * real_of_int period * \<bar>x\<bar> \<le> float_max"
  shows "\<exists>out. sma (map Fin xs) period = Inr out \<and> length out = length xs
           \<and> (\<forall>i<length xs. out ! i = Fin (trailing_mean xs i (min (i + 1) (nat period))))"
proof (rule sma_values [OF assms(1)])
  show "\<forall>x\<in>set xs. real_of_int period * \<bar>x\<bar> \<le> float_max"
  proof
    fix x assume "x \<in> set xs"
    with assms(2) have "2 * real_of_int period * \<bar>x\<bar> \<le> float_max" by blast
    moreover have "0 \<le> real_of_int period * \<bar>x\<bar>" using assms(1) by simp
    ultimately show "real_of_int period * \<bar>x\<bar> \<le> float_max" by simp
  qed
qed

theorem sma_trailing_mean_witness:
  "(1 :: int) \<le> 3
   \<and> (\<exists>out. sma (map Fin [10, 11, 12, 11, 10, 9, 10, 11, 12, 13]) 3 = Inr out
          \<and> out ! 2 = Fin 11 \<and> out ! 9 = Fin 12)"
proof -
  let ?xs = "[10, 11, 12, 11, 10, 9, 10, 11, 12, 13] :: real list"
  have b: "\<forall>x\<in>set ?xs. 2 * real_of_int 3 * \<bar>x\<bar> \<le> float_max"
    by (simp add: float_max_def)
  from sma_trailing_mean [of 3 ?xs, OF _ b] obtain out
    where o: "sma (map Fin ?xs) 3 = Inr out"
      and n: "\<forall>i<length ?xs. out ! i = Fin (trailing_mean ?xs i (min (i + 1) (nat 3)))"
    by auto
  have "out ! 2 = Fin (trailing_mean ?xs 2 (min (2 + 1) (nat 3)))" using n by simp
  moreover have "out ! 9 = Fin (trailing_mean ?xs 9 (min (9 + 1) (nat 3)))" using n by simp
  moreover have "trailing_mean ?xs 2 (min (2 + 1) (nat 3)) = 11"
    by (simp add: trailing_mean_def eval_nat_numeral)
  moreover have "trailing_mean ?xs 9 (min (9 + 1) (nat 3)) = 12"
    by (simp add: trailing_mean_def eval_nat_numeral)
  ultimately show ?thesis using o by simp
qed

text \<open>
  A series with a missing value.  Where it starts with one, index 0 is unset; behind a
  missing value the mean is taken over the values that are there, one instead of two.
\<close>

theorem sma_missing_value:
  "sma [NaN, Fin 2] 2 = Inr [NaN, Fin 2]
   \<and> sma [Fin 1, NaN, Fin 3] 2 = Inr [Fin 1, Fin 1, Fin 3]"
  by (simp add: sma_def rolling_def window_at_def np_mean_def np_sum_def to_float_small
      upt_rec [of 0] upt_rec [of 1] upt_rec [of 2])

section \<open>On-balance volume\<close>

lemma length_shift [simp]: "length (shift k xs) = length xs"
  by (simp add: shift_def)

lemma length_diff [simp]: "length (diff xs) = length xs"
  by (simp add: diff_def)

lemma shift_nth:
  "i < length xs \<Longrightarrow>
     shift k xs ! i = (if 0 \<le> int i - k \<and> int i - k < int (length xs)
                       then xs ! nat (int i - k) else NaN)"
  by (simp add: shift_def Let_def)

lemma diff_Fin_nth:
  assumes "i < length cs"
  shows "diff (map Fin cs) ! i = (if i = 0 then NaN else to_float (cs ! i - cs ! (i - 1)))"
proof (cases i)
  case 0
  with assms show ?thesis by (simp add: diff_def shift_nth fsub_def)
next
  case (Suc j)
  with assms have "nat (int i - 1) = j" "j < length cs" by simp_all
  with assms Suc show ?thesis by (simp add: diff_def shift_nth fsub_def)
qed

text \<open>The sign of a difference is the same whether or not the difference overflows.\<close>

lemma np_sign_to_float: "np_sign (to_float r) = Fin (sgn r)"
proof -
  have t: "0 < overflow_threshold" using float_max_pos float_max_less_threshold by linarith
  consider "overflow_threshold \<le> r" | "r \<le> - overflow_threshold"
    | "\<not> overflow_threshold \<le> r" "\<not> r \<le> - overflow_threshold" by blast
  then show ?thesis
  proof cases
    case 1
    with t have "0 < r" by linarith
    with 1 show ?thesis by (simp add: to_float_def)
  next
    case 2
    with t have "r < 0" by linarith
    with 2 t show ?thesis by (simp add: to_float_def)
  next
    case 3
    have "sgn (max (- float_max) (min float_max r)) = sgn r"
    proof (cases "0 < r")
      case True
      with float_max_pos have "0 < min float_max r" by simp
      then have "0 < max (- float_max) (min float_max r)" by simp
      with True show ?thesis by simp
    next
      case False
      show ?thesis
      proof (cases "r = 0")
        case True
        with float_max_pos show ?thesis by simp
      next
        case False
        with \<open>\<not> 0 < r\<close> have n: "r < 0" by simp
        with float_max_pos have "min float_max r = r" by simp
        moreover have "max (- float_max) r < 0" using n float_max_pos by simp
        ultimately show ?thesis using n by simp
      qed
    qed
    with 3 show ?thesis by (simp add: to_float_def)
  qed
qed

lemma length_cumsum_from [simp]: "length (cumsum_from a xs) = length xs"
  by (induction xs arbitrary: a) simp_all

lemma cumsum_from_Fin_nth:
  "k < length ds \<Longrightarrow>
     cumsum_from acc (map Fin ds) ! k = foldl fadd acc (map Fin (take (Suc k) ds))"
proof (induction ds arbitrary: acc k)
  case Nil
  then show ?case by simp
next
  case (Cons d ds)
  show ?case
  proof (cases k)
    case 0
    then show ?thesis by simp
  next
    case (Suc j)
    with Cons.prems have "j < length ds" by simp
    from Cons.IH [OF this, of "fadd acc (Fin d)"] Suc show ?thesis by simp
  qed
qed

lemma foldl_fadd_prefix:
  "\<forall>k. 0 < k \<and> k \<le> length ys \<longrightarrow> in_range (a + sum_list (take k ys)) \<Longrightarrow>
     foldl fadd (Fin a) (map Fin ys) = Fin (a + sum_list ys)"
proof (induction ys arbitrary: a)
  case Nil
  then show ?case by simp
next
  case (Cons y ys)
  from Cons.prems [rule_format, of 1] have "in_range (a + y)" by simp
  then have s: "fadd (Fin a) (Fin y) = Fin (a + y)" by (simp add: to_float_in_range)
  have "\<forall>k. 0 < k \<and> k \<le> length ys \<longrightarrow> in_range (a + y + sum_list (take k ys))"
  proof (intro allI impI)
    fix k assume "0 < k \<and> k \<le> length ys"
    with Cons.prems [rule_format, of "Suc k"]
    show "in_range (a + y + sum_list (take k ys))" by (simp add: add.assoc)
  qed
  from Cons.IH [OF this] s show ?case by (simp add: add.assoc)
qed

lemma obv_flow:
  assumes len: "length vs = length cs" and ne: "cs \<noteq> []"
    and fin: "\<forall>v\<in>set vs. in_range v"
  shows "map2 fmul (map Fin vs) (map np_sign (diff (map Fin cs)))
           = NaN # map Fin (map (\<lambda>j. sgn (cs ! j - cs ! (j - 1)) * vs ! j) [1..<length cs])"
proof (rule nth_equalityI)
  show "length (map2 fmul (map Fin vs) (map np_sign (diff (map Fin cs))))
          = length (NaN # map Fin (map (\<lambda>j. sgn (cs ! j - cs ! (j - 1)) * vs ! j) [1..<length cs]))"
  proof -
    have "0 < length cs" using ne by simp
    then show ?thesis using len by simp
  qed
next
  fix i assume "i < length (map2 fmul (map Fin vs) (map np_sign (diff (map Fin cs))))"
  then have i: "i < length cs" using len by simp
  show "map2 fmul (map Fin vs) (map np_sign (diff (map Fin cs))) ! i
          = (NaN # map Fin (map (\<lambda>j. sgn (cs ! j - cs ! (j - 1)) * vs ! j) [1..<length cs])) ! i"
  proof (cases i)
    case 0
    with i len show ?thesis by (simp add: diff_Fin_nth)
  next
    case (Suc k)
    let ?s = "sgn (cs ! i - cs ! (i - 1))"
    from i len have "vs ! i \<in> set vs" by simp
    with fin have v: "\<bar>vs ! i\<bar> \<le> float_max" by (simp add: in_range_def)
    have "\<bar>vs ! i * ?s\<bar> = \<bar>vs ! i\<bar> * \<bar>?s\<bar>" by (rule abs_mult)
    also have "\<dots> \<le> \<bar>vs ! i\<bar> * 1" by (intro mult_left_mono) (simp_all add: sgn_if)
    finally have "\<bar>vs ! i * ?s\<bar> \<le> float_max" using v by simp
    then have "to_float (vs ! i * ?s) = Fin (?s * vs ! i)"
      by (simp add: to_float_id mult.commute)
    with Suc i len show ?thesis by (simp add: diff_Fin_nth np_sign_to_float)
  qed
qed

lemma obv_spec_prefix:
  assumes "k \<le> i"
  shows "sum_list (take k (map (\<lambda>j. sgn (cs ! j - cs ! (j - 1)) * vs ! j) [1..<Suc i]))
           = obv_spec cs vs k"
proof -
  let ?f = "\<lambda>j. sgn (cs ! j - cs ! (j - 1)) * vs ! j"
  have "take k (map ?f [1..<Suc i]) = map ?f [1..<Suc k]"
    using assms by (simp add: take_map min_def del: upt_Suc)
  moreover have "sum_list (map ?f [1..<Suc k]) = sum ?f {1..<Suc k}"
    by (simp only: interv_sum_list_conv_sum_set_nat set_upt)
  moreover have "{1..<Suc k} = {1..k}"
    by (rule atLeastLessThanSuc_atLeastAtMost)
  ultimately show ?thesis by (simp only: obv_spec_def)
qed

lemma obv_float_exact:
  assumes "\<forall>k. 0 < k \<and> k \<le> i \<longrightarrow> in_range (obv_spec cs vs k)"
  shows "obv_float cs vs i = Fin (obv_spec cs vs i)"
proof -
  let ?ys = "map (\<lambda>j. sgn (cs ! j - cs ! (j - 1)) * vs ! j) [1..<Suc i]"
  have l: "length ?ys = i" by (simp del: upt_Suc)
  have "\<forall>k. 0 < k \<and> k \<le> length ?ys \<longrightarrow> in_range (0 + sum_list (take k ?ys))"
  proof (intro allI impI)
    fix k assume k: "0 < k \<and> k \<le> length ?ys"
    then have ki: "0 < k \<and> k \<le> i" unfolding l by simp
    then have "sum_list (take k ?ys) = obv_spec cs vs k" by (intro obv_spec_prefix) simp
    moreover from assms ki have "in_range (obv_spec cs vs k)" by blast
    ultimately show "in_range (0 + sum_list (take k ?ys))" by (simp only: add_0)
  qed
  from foldl_fadd_prefix [OF this] have "float_sum ?ys = Fin (sum_list ?ys)"
    by (simp add: float_sum_def)
  moreover have "take i ?ys = ?ys" using l by (simp only: take_all_iff order_refl)
  with obv_spec_prefix [of i i cs vs] have "sum_list ?ys = obv_spec cs vs i" by (simp only: order_refl)
  ultimately show ?thesis by (simp only: obv_float_def)
qed

lemma obv_sums:
  assumes len: "length vs = length cs" and ne: "cs \<noteq> []"
    and fin: "\<forall>v\<in>set vs. in_range v"
  shows "length (obv (map Fin cs) (map Fin vs)) = length cs
         \<and> obv (map Fin cs) (map Fin vs) ! 0 = NaN
         \<and> (\<forall>i. 0 < i \<and> i < length cs
                \<longrightarrow> obv (map Fin cs) (map Fin vs) ! i = obv_float cs vs i)
         \<and> (\<forall>i. 0 < i \<and> i < length cs
                   \<and> (\<forall>k. 0 < k \<and> k \<le> i \<longrightarrow> in_range (obv_spec cs vs k))
                \<longrightarrow> obv (map Fin cs) (map Fin vs) ! i = Fin (obv_spec cs vs i))"
proof -
  let ?f = "\<lambda>j. sgn (cs ! j - cs ! (j - 1)) * vs ! j"
  let ?ds = "map ?f [1..<length cs]"
  have o: "obv (map Fin cs) (map Fin vs) = NaN # cumsum_from (Fin 0) (map Fin ?ds)"
    unfolding obv_def Let_def obv_flow [OF len ne fin] by (simp add: cumsum_def)
  have fl: "obv (map Fin cs) (map Fin vs) ! i = obv_float cs vs i"
    if i: "0 < i \<and> i < length cs" for i
  proof -
    from i obtain k where k: "i = Suc k" by (cases i) auto
    with i have kl: "k < length ?ds" by simp
    have "take (Suc k) ?ds = map ?f [1..<Suc (Suc k)]"
      using kl by (simp add: take_map min_def del: upt_Suc)
    with cumsum_from_Fin_nth [OF kl, of "Fin 0"] k show ?thesis
      unfolding o obv_float_def float_sum_def by simp
  qed
  have "obv (map Fin cs) (map Fin vs) ! i = Fin (obv_spec cs vs i)"
    if i: "0 < i \<and> i < length cs \<and> (\<forall>k. 0 < k \<and> k \<le> i \<longrightarrow> in_range (obv_spec cs vs k))"
    for i
  proof -
    from i have "obv_float cs vs i = Fin (obv_spec cs vs i)" by (intro obv_float_exact) blast
    with fl [of i] i show ?thesis by simp
  qed
  moreover have "0 < length cs" using ne by simp
  then have "length (obv (map Fin cs) (map Fin vs)) = length cs" unfolding o by simp
  moreover have "obv (map Fin cs) (map Fin vs) ! 0 = NaN" unfolding o by simp
  ultimately show ?thesis using fl by blast
qed

text \<open>
  C5. For close and volume series of finite doubles, of the same non-zero length,
  \<open>obv\<close> has that length, its first value is unset (NaN: the sign of the undefined
  first delta is NaN, and \<open>cumsum\<close> leaves a NaN entry as NaN), and its value at every
  later position \<open>i\<close> is the sum of \<open>sign(close[j] - close[j-1]) \<cdot> volume[j]\<close> over
  \<open>j = 1..i\<close>, added up in floating point from \<open>j = 1\<close> on: the first element
  contributes nothing to the sums.  As long as no partial sum leaves the range of the
  finite doubles, that value is the exact sum.
\<close>

theorem obv_cumulative:
  assumes len: "length vs = length cs" and ne: "cs \<noteq> []"
    and fin: "\<forall>v\<in>set vs. in_range v"
  shows "length (obv (map Fin cs) (map Fin vs)) = length cs
         \<and> obv (map Fin cs) (map Fin vs) ! 0 = NaN
         \<and> (\<forall>i. 0 < i \<and> i < length cs
                \<longrightarrow> obv (map Fin cs) (map Fin vs) ! i = obv_float cs vs i)
         \<and> (\<forall>i. 0 < i \<and> i < length cs
                   \<and> (\<forall>k. 0 < k \<and> k \<le> i \<longrightarrow> in_range (obv_spec cs vs k))
                \<longrightarrow> obv (map Fin cs) (map Fin vs) ! i = Fin (obv_spec cs vs i))"
  using len ne fin by (rule obv_sums)

text \<open>Two bars, the close rising from 1 to 2 on a volume of 10 each.\<close>

theorem obv_first_unset:
  "obv [Fin 1, Fin 2] [Fin 10, Fin 10] = [NaN, Fin 10]"
  by (simp add: obv_def diff_def shift_def fsub_def cumsum_def to_float_small)

theorem obv_cumulative_witness:
  "length [10, 10 :: real] = length [1, 2 :: real]
   \<and> in_range (obv_spec [1, 2] [10, 10] 1)
   \<and> obv (map Fin [1, 2]) (map Fin [10, 10]) ! 0 = NaN
   \<and> obv (map Fin [1, 2]) (map Fin [10, 10]) ! 1 = Fin 10"
proof -
  have s: "obv_spec [1, 2] [10, 10] 1 = 10" by (simp add: obv_spec_def)
  have r: "in_range 10" by (rule in_range_small) simp
  have f: "\<forall>v\<in>set [10, 10 :: real]. in_range v" using r by simp
  have k: "\<forall>k. 0 < k \<and> k \<le> (1 :: nat) \<longrightarrow> in_range (obv_spec [1, 2] [10, 10] k)"
  proof (intro allI impI)
    fix k :: nat assume "0 < k \<and> k \<le> 1"
    then have "k = 1" by simp
    with s r show "in_range (obv_spec [1, 2] [10, 10] k)" by simp
  qed
  have le: "length [10, 10 :: real] = length [1, 2 :: real]" by simp
  have ne: "[1, 2 :: real] \<noteq> []" by simp
  note t = obv_cumulative [OF le ne f]
  from t have a: "obv (map Fin [1, 2]) (map Fin [10, 10]) ! 0 = NaN" by blast
  from t have "\<forall>i. 0 < i \<and> i < length [1, 2 :: real]
               \<and> (\<forall>k. 0 < k \<and> k \<le> i \<longrightarrow> in_range (obv_spec [1, 2] [10, 10] k))
            \<longrightarrow> obv (map Fin [1, 2]) (map Fin [10, 10]) ! i = Fin (obv_spec [1, 2] [10, 10] i)"
    by blast
  from this [rule_format, of 1] k
  have "obv (map Fin [1, 2]) (map Fin [10, 10]) ! 1 = Fin (obv_spec [1, 2] [10, 10] 1)"
    by simp
  with a s r show ?thesis by simp
qed

section \<open>Relative strength index\<close>

lemma length_ewm_steps [simp]: "length (ewm_steps \<alpha> adj minp w ow k xs) = length xs"
  by (induction xs arbitrary: w ow k) (simp_all add: Let_def)

lemma length_ewm_mean [simp]: "length (ewm_mean \<alpha> adj mp xs) = length xs"
  by (cases xs) (simp_all add: ewm_mean_def Let_def)

text \<open>
  The recurrence of \<open>ewm(adjust=True)\<close> on observations between 0 and \<open>G\<close>: the
  running average stays between 0 and \<open>G\<close>, the weight it carries stays below
  \<open>1/\<alpha>\<close>, and nothing overflows when \<open>(1/\<alpha> + 1) \<cdot> G\<close> is in range.
\<close>

lemma ewm_step_value:
  assumes a: "0 < \<alpha>" "\<alpha> \<le> 1" and G: "(1 / \<alpha> + 1) * G \<le> float_max"
    and w: "0 \<le> w" "w \<le> G" and ow: "0 \<le> ow" "ow \<le> 1 / \<alpha>" and g: "0 \<le> g" "g \<le> G"
  defines "ow1 \<equiv> ow * (1 - \<alpha>)"
  defines "w' \<equiv> (ow1 * w + g) / (ow1 + 1)"
  shows "(if Fin w = Fin g then Fin w
          else fdiv (fadd (fmul (Fin ow1) (Fin w)) (fmul (Fin 1) (Fin g))) (Fin (ow1 + 1)))
           = Fin w'"
    and "0 \<le> w'" and "w' \<le> G" and "0 \<le> ow1 + 1" and "ow1 + 1 \<le> 1 / \<alpha>"
proof -
  have G0: "0 \<le> G" using w by linarith
  have ia: "1 \<le> 1 / \<alpha>" using a by (simp add: le_divide_eq)
  have ow1: "0 \<le> ow1" unfolding ow1_def using ow(1) a by simp
  have "ow1 \<le> (1 / \<alpha>) * (1 - \<alpha>)" unfolding ow1_def using ow(2) a
    by (intro mult_right_mono) simp_all
  also have "\<dots> = 1 / \<alpha> - 1" using a by (simp add: field_simps)
  finally have ow1': "ow1 \<le> 1 / \<alpha> - 1" .
  show "0 \<le> ow1 + 1" using ow1 by simp
  show "ow1 + 1 \<le> 1 / \<alpha>" using ow1' by simp
  have den: "0 < ow1 + 1" using ow1 by simp
  have num: "0 \<le> ow1 * w + g" using ow1 w(1) g(1) by simp
  show w'0: "0 \<le> w'" unfolding w'_def using num den by simp
  have "ow1 * w + g \<le> ow1 * G + G" using ow1 w(2) g(2) by (simp add: add_mono mult_left_mono)
  also have "\<dots> = G * (ow1 + 1)" by (simp add: algebra_simps)
  finally have numG: "ow1 * w + g \<le> G * (ow1 + 1)" .
  then show w'G: "w' \<le> G" unfolding w'_def using den by (simp add: divide_le_eq)
  have Gm: "G \<le> float_max"
  proof -
    have "G * 1 \<le> G * (1 / \<alpha> + 1)" using G0 ia a by (intro mult_left_mono) simp_all
    with G show ?thesis by (simp add: mult.commute)
  qed
  have "ow1 * w \<le> (1 / \<alpha>) * G"
    using ow1 ow1' w G0 a by (intro mult_mono) simp_all
  also have "\<dots> \<le> (1 / \<alpha> + 1) * G" using G0 by (simp add: algebra_simps)
  finally have p1: "\<bar>ow1 * w\<bar> \<le> float_max" using ow1 w(1) G by simp
  have p2: "\<bar>g\<bar> \<le> float_max" using g Gm by simp
  have "G * (ow1 + 1) \<le> G * (1 / \<alpha>)" using G0 ow1' by (intro mult_left_mono) simp_all
  also have "\<dots> \<le> (1 / \<alpha> + 1) * G" using G0 by (simp add: algebra_simps)
  finally have p3: "\<bar>ow1 * w + g\<bar> \<le> float_max" using num numG G by simp
  have p4: "\<bar>w'\<bar> \<le> float_max" using w'0 w'G Gm by simp
  have f: "fdiv (fadd (fmul (Fin ow1) (Fin w)) (fmul (Fin 1) (Fin g))) (Fin (ow1 + 1)) = Fin w'"
    using p1 p2 p3 p4 den unfolding w'_def by (simp add: to_float_id)
  have "w' = w" if "w = g"
    unfolding w'_def using that den by (simp add: field_simps)
  with f show "(if Fin w = Fin g then Fin w
          else fdiv (fadd (fmul (Fin ow1) (Fin w)) (fmul (Fin 1) (Fin g))) (Fin (ow1 + 1)))
           = Fin w'"
    by simp
qed

lemma ewm_steps_nonneg:
  assumes a: "0 < \<alpha>" "\<alpha> \<le> 1" and G: "(1 / \<alpha> + 1) * G \<le> float_max"
  shows "\<lbrakk>0 \<le> w; w \<le> G; 0 \<le> ow; ow \<le> 1 / \<alpha>; \<forall>g\<in>set gs. 0 \<le> g \<and> g \<le> G; i < length gs\<rbrakk> \<Longrightarrow>
           (minp \<le> k + i + 1 \<longrightarrow>
              (\<exists>v. ewm_steps \<alpha> True minp (Fin w) ow k (map Fin gs) ! i = Fin v \<and> 0 \<le> v \<and> v \<le> G))
         \<and> (\<not> minp \<le> k + i + 1 \<longrightarrow>
              ewm_steps \<alpha> True minp (Fin w) ow k (map Fin gs) ! i = NaN)"
proof (induction gs arbitrary: w ow k i)
  case Nil
  then show ?case by simp
next
  case (Cons g gs)
  let ?ow1 = "ow * (1 - \<alpha>)"
  let ?w' = "(?ow1 * w + g) / (?ow1 + 1)"
  from Cons.prems(5) have g: "0 \<le> g" "g \<le> G" by simp_all
  note s = ewm_step_value [OF a G Cons.prems(1,2,3,4) g]
  have step: "ewm_steps \<alpha> True minp (Fin w) ow k (map Fin (g # gs))
                = (if minp \<le> Suc k then Fin ?w' else NaN)
                  # ewm_steps \<alpha> True minp (Fin ?w') (?ow1 + 1) (Suc k) (map Fin gs)"
    using s(1) by (simp add: Let_def)
  show ?case
  proof (cases i)
    case 0
    with s(2,3) show ?thesis unfolding step by simp
  next
    case (Suc j)
    with Cons.prems have j: "j < length gs" by simp
    from Cons.prems(5) have r: "\<forall>g\<in>set gs. 0 \<le> g \<and> g \<le> G" by simp
    from Cons.IH [OF s(2,3,4,5) r j, of "Suc k"] Suc show ?thesis
      unfolding step by simp
  qed
qed

lemma ewm_mean_nonneg:
  assumes a: "0 < \<alpha>" "\<alpha> \<le> 1" and G: "(1 / \<alpha> + 1) * G \<le> float_max"
    and mp: "1 \<le> mp" and gs: "\<forall>g\<in>set gs. 0 \<le> g \<and> g \<le> G"
    and i: "i < length gs"
  shows "(mp \<le> i + 1 \<longrightarrow> (\<exists>v. ewm_mean \<alpha> True mp (map Fin gs) ! i = Fin v \<and> 0 \<le> v \<and> v \<le> G))
         \<and> (\<not> mp \<le> i + 1 \<longrightarrow> ewm_mean \<alpha> True mp (map Fin gs) ! i = NaN)"
proof (cases gs)
  case Nil
  with i show ?thesis by simp
next
  case (Cons g rest)
  have m: "max mp 1 = mp" using mp by simp
  have e: "ewm_mean \<alpha> True mp (map Fin gs)
             = (if mp \<le> 1 then Fin g else NaN) # ewm_steps \<alpha> True mp (Fin g) 1 1 (map Fin rest)"
    using Cons m by (simp add: ewm_mean_def Let_def)
  have g: "0 \<le> g" "g \<le> G" using gs Cons by simp_all
  have ia: "1 \<le> 1 / \<alpha>" using a by (simp add: le_divide_eq)
  show ?thesis
  proof (cases i)
    case 0
    with e g show ?thesis by simp
  next
    case (Suc j)
    with i Cons have j: "j < length rest" by simp
    have r: "\<forall>g\<in>set rest. 0 \<le> g \<and> g \<le> G" using gs Cons by simp
    from ewm_steps_nonneg [OF a G g _ ia r j, of mp 1] e Suc show ?thesis by simp
  qed
qed

lemma diff_in_range:
  assumes b: "\<forall>x\<in>set cs. 2 * \<bar>x\<bar> \<le> G" and G: "G \<le> float_max" and i: "i < length cs" "0 < i"
  shows "diff (map Fin cs) ! i = Fin (cs ! i - cs ! (i - 1))" and "\<bar>cs ! i - cs ! (i - 1)\<bar> \<le> G"
proof -
  from i have "cs ! i \<in> set cs" "cs ! (i - 1) \<in> set cs" by simp_all
  with b have "2 * \<bar>cs ! i\<bar> \<le> G" "2 * \<bar>cs ! (i - 1)\<bar> \<le> G" by blast+
  then show d: "\<bar>cs ! i - cs ! (i - 1)\<bar> \<le> G" by linarith
  with G have "\<bar>cs ! i - cs ! (i - 1)\<bar> \<le> float_max" by linarith
  with i show "diff (map Fin cs) ! i = Fin (cs ! i - cs ! (i - 1))"
    by (simp add: diff_Fin_nth to_float_id)
qed

lemma gain_Fin:
  assumes b: "\<forall>x\<in>set cs. 2 * \<bar>x\<bar> \<le> G" and G: "G \<le> float_max"
  shows "map (\<lambda>d. if fgt d (Fin 0) then d else Fin 0) (diff (map Fin cs))
     = map Fin (map (\<lambda>i. if i = 0 then 0 else max (cs ! i - cs ! (i - 1)) 0) [0..<length cs])"
proof (rule nth_equalityI)
  show "length (map (\<lambda>d. if fgt d (Fin 0) then d else Fin 0) (diff (map Fin cs)))
          = length (map Fin (map (\<lambda>i. if i = 0 then 0 else max (cs ! i - cs ! (i - 1)) 0)
                      [0..<length cs]))"
    by simp
next
  fix i assume "i < length (map (\<lambda>d. if fgt d (Fin 0) then d else Fin 0) (diff (map Fin cs)))"
  then have i: "i < length cs" by simp
  show "map (\<lambda>d. if fgt d (Fin 0) then d else Fin 0) (diff (map Fin cs)) ! i
          = map Fin (map (\<lambda>i. if i = 0 then 0 else max (cs ! i - cs ! (i - 1)) 0)
              [0..<length cs]) ! i"
  proof (cases "i = 0")
    case True
    with i show ?thesis by (simp add: diff_Fin_nth fgt_def)
  next
    case False
    then have "0 < i" by simp
    from diff_in_range(1) [OF b G i this] i False show ?thesis by (auto simp: fgt_def)
  qed
qed

lemma loss_Fin:
  assumes b: "\<forall>x\<in>set cs. 2 * \<bar>x\<bar> \<le> G" and G: "G \<le> float_max"
  shows "map (\<lambda>d. if flt d (Fin 0) then fneg d else Fin 0) (diff (map Fin cs))
     = map Fin (map (\<lambda>i. if i = 0 then 0 else max (- (cs ! i - cs ! (i - 1))) 0) [0..<length cs])"
proof (rule nth_equalityI)
  show "length (map (\<lambda>d. if flt d (Fin 0) then fneg d else Fin 0) (diff (map Fin cs)))
          = length (map Fin (map (\<lambda>i. if i = 0 then 0 else max (- (cs ! i - cs ! (i - 1))) 0)
                      [0..<length cs]))"
    by simp
next
  fix i assume "i < length (map (\<lambda>d. if flt d (Fin 0) then fneg d else Fin 0) (diff (map Fin cs)))"
  then have i: "i < length cs" by simp
  show "map (\<lambda>d. if flt d (Fin 0) then fneg d else Fin 0) (diff (map Fin cs)) ! i
          = map Fin (map (\<lambda>i. if i = 0 then 0 else max (- (cs ! i - cs ! (i - 1))) 0)
              [0..<length cs]) ! i"
  proof (cases "i = 0")
    case True
    with i show ?thesis by (simp add: diff_Fin_nth)
  next
    case False
    then have "0 < i" by simp
    from diff_in_range(1) [OF b G i this] i False show ?thesis by auto
  qed
qed

text \<open>
  The last step of \<open>rsi\<close> on averages that are finite and not negative: the quotient
  \<open>rs\<close> may overflow to infinity, and the index still lies in \<open>[0, 100]\<close>.
\<close>

lemma to_float_hundred: "\<bar>x\<bar> \<le> 100 \<Longrightarrow> to_float x = Fin x"
proof (rule to_float_small)
  assume "\<bar>x\<bar> \<le> 100"
  moreover have "(100 :: real) \<le> 2 ^ 1000" by simp
  ultimately show "\<bar>x\<bar> \<le> 2 ^ 1000" by (rule order_trans)
qed

lemma rsi_value_bounds:
  assumes "0 \<le> a" "0 \<le> l" "l + eps10 \<le> float_max"
  shows "\<exists>v. fsub (Fin 100) (fdiv (Fin 100) (fadd (Fin 1) (fdiv (Fin a) (fadd (Fin l) (Fin eps10)))))
               = Fin v \<and> 0 \<le> v \<and> v \<le> 100"
proof -
  have c: "to_float 100 = Fin 100" by (rule to_float_small) simp
  have d: "l + eps10 > 0" using assms eps10_pos by linarith
  with assms(3) have den: "fadd (Fin l) (Fin eps10) = Fin (l + eps10)" by (simp add: to_float_id)
  have "0 \<le> a / (l + eps10)" using assms d by simp
  from to_float_nonneg [OF this]
  consider "to_float (a / (l + eps10)) = PInf"
    | r where "to_float (a / (l + eps10)) = Fin r" "0 \<le> r" "r \<le> float_max" by blast
  then show ?thesis
  proof cases
    case 1
    with d c show ?thesis unfolding den by (simp add: fsub_def)
  next
    case 2
    let ?t = "max (- float_max) (min float_max (1 + r))"
    have e1: "fdiv (Fin a) (fadd (Fin l) (Fin eps10)) = Fin r"
      unfolding den using 2(1) d by simp
    have "float_max + 1 < overflow_threshold"
      by (simp add: float_max_def overflow_threshold_def)
    with 2 have e2: "fadd (Fin 1) (Fin r) = Fin ?t" by (simp add: to_float_def)
    have "1 \<le> float_max" by (simp add: float_max_def)
    with 2(2) have t: "1 \<le> ?t" by simp
    then have q: "0 \<le> 100 / ?t" "100 / ?t \<le> 100" by (simp_all add: divide_le_eq)
    then have v: "0 \<le> 100 - 100 / ?t" "100 - 100 / ?t \<le> 100" by linarith+
    from q v have "\<bar>100 / ?t\<bar> \<le> 100" "\<bar>100 - 100 / ?t\<bar> \<le> 100" by linarith+
    then have "to_float (100 / ?t) = Fin (100 / ?t)"
      "to_float (100 - 100 / ?t) = Fin (100 - 100 / ?t)"
      by (simp_all only: to_float_hundred)
    moreover have "?t \<noteq> 0" using t by linarith
    ultimately have e3: "fsub (Fin 100) (fdiv (Fin 100) (Fin ?t)) = Fin (100 - 100 / ?t)"
      by (simp add: fsub_def)
    show ?thesis unfolding e1 e2 e3 using v by blast
  qed
qed

lemma rsi_values:
  assumes p: "1 \<le> period"
    and b: "\<forall>x\<in>set cs. 2 * (real_of_int period + 1) * \<bar>x\<bar> \<le> float_max"
  shows "\<exists>out. rsi (map Fin cs) period = Inr out \<and> length out = length cs
           \<and> (\<forall>i<length cs.
                 (int i + 1 < period \<longrightarrow> out ! i = NaN)
               \<and> (period \<le> int i + 1 \<longrightarrow> (\<exists>v. out ! i = Fin v \<and> 0 \<le> v \<and> v \<le> 100)))"
proof -
  define G where "G = float_max / (real_of_int period + 1)"
  let ?gs = "map (\<lambda>i. if i = 0 then 0 else max (cs ! i - cs ! (i - 1)) 0) [0..<length cs]"
  let ?ls = "map (\<lambda>i. if i = 0 then 0 else max (- (cs ! i - cs ! (i - 1))) 0) [0..<length cs]"
  let ?\<alpha> = "1 / real_of_int period"
  let ?ag = "ewm_mean ?\<alpha> True (nat period) (map Fin ?gs)"
  let ?al = "ewm_mean ?\<alpha> True (nat period) (map Fin ?ls)"
  let ?out = "map (\<lambda>r. fsub (Fin 100) (fdiv (Fin 100) (fadd (Fin 1) r)))
                (map2 (\<lambda>g l. fdiv g (fadd l (Fin eps10))) ?ag ?al)"
  have pp: "0 < real_of_int period + 1" "2 \<le> real_of_int period + 1" using p by simp_all
  have G0: "0 \<le> G" unfolding G_def using float_max_pos pp by simp
  have G2: "2 * G \<le> float_max"
  proof -
    have "2 * G \<le> (real_of_int period + 1) * G" using pp G0 by (intro mult_right_mono) simp_all
    also have "\<dots> = float_max" unfolding G_def using pp by simp
    finally show ?thesis .
  qed
  then have Gm: "G \<le> float_max" using G0 by linarith
  have bG: "\<forall>x\<in>set cs. 2 * \<bar>x\<bar> \<le> G"
  proof
    fix x assume "x \<in> set cs"
    with b have "2 * (real_of_int period + 1) * \<bar>x\<bar> \<le> float_max" by blast
    then have "(2 * \<bar>x\<bar>) * (real_of_int period + 1) \<le> float_max" by (simp add: mult.commute mult.left_commute)
    then show "2 * \<bar>x\<bar> \<le> G" unfolding G_def using pp by (simp add: le_divide_eq)
  qed
  have room: "(1 / ?\<alpha> + 1) * G \<le> float_max" unfolding G_def using pp by simp
  have r: "rsi (map Fin cs) period = Inr ?out"
    using p unfolding rsi_def Let_def gain_Fin [OF bG Gm] loss_Fin [OF bG Gm] by simp
  have a: "0 < ?\<alpha>" "?\<alpha> \<le> 1" using p by (simp_all add: divide_le_eq)
  have mp: "1 \<le> nat period" using p by simp
  have gs: "\<forall>g\<in>set ?gs. 0 \<le> g \<and> g \<le> G"
  proof
    fix g assume "g \<in> set ?gs"
    then have "g \<in> (\<lambda>i. if i = 0 then 0 else max (cs ! i - cs ! (i - 1)) 0) ` {0..<length cs}"
      by (simp only: set_map set_upt)
    then obtain i where "i \<in> {0..<length cs}"
      and g: "g = (if i = 0 then 0 else max (cs ! i - cs ! (i - 1)) 0)" by (rule imageE)
    then have i: "i < length cs" by simp
    show "0 \<le> g \<and> g \<le> G"
    proof (cases "i = 0")
      case True
      with g G0 show ?thesis by simp
    next
      case False
      then have "0 < i" by simp
      from diff_in_range(2) [OF bG Gm i this] g False G0 show ?thesis by simp
    qed
  qed
  have ls: "\<forall>g\<in>set ?ls. 0 \<le> g \<and> g \<le> G"
  proof
    fix g assume "g \<in> set ?ls"
    then have "g \<in> (\<lambda>i. if i = 0 then 0 else max (- (cs ! i - cs ! (i - 1))) 0) ` {0..<length cs}"
      by (simp only: set_map set_upt)
    then obtain i where "i \<in> {0..<length cs}"
      and g: "g = (if i = 0 then 0 else max (- (cs ! i - cs ! (i - 1))) 0)" by (rule imageE)
    then have i: "i < length cs" by simp
    show "0 \<le> g \<and> g \<le> G"
    proof (cases "i = 0")
      case True
      with g G0 show ?thesis by simp
    next
      case False
      then have "0 < i" by simp
      from diff_in_range(2) [OF bG Gm i this] g False G0 show ?thesis by simp
    qed
  qed
  have half: "G + eps10 \<le> float_max"
  proof -
    have "2 \<le> float_max" by (simp add: float_max_def)
    with G2 eps10_small show ?thesis by linarith
  qed
  have "\<forall>i<length cs.
          (int i + 1 < period \<longrightarrow> ?out ! i = NaN)
        \<and> (period \<le> int i + 1 \<longrightarrow> (\<exists>v. ?out ! i = Fin v \<and> 0 \<le> v \<and> v \<le> 100))"
  proof (intro allI impI)
    fix i assume i: "i < length cs"
    then have ig: "i < length ?gs" and il: "i < length ?ls" by simp_all
    have o: "?out ! i = fsub (Fin 100) (fdiv (Fin 100) (fadd (Fin 1)
                 (fdiv (?ag ! i) (fadd (?al ! i) (Fin eps10)))))"
      using i by simp
    show "(int i + 1 < period \<longrightarrow> ?out ! i = NaN)
        \<and> (period \<le> int i + 1 \<longrightarrow> (\<exists>v. ?out ! i = Fin v \<and> 0 \<le> v \<and> v \<le> 100))"
    proof (cases "period \<le> int i + 1")
      case True
      then have "nat period \<le> i + 1" by simp
      with ewm_mean_nonneg [OF a room mp gs ig] ewm_mean_nonneg [OF a room mp ls il]
      obtain g l where gl: "?ag ! i = Fin g" "0 \<le> g" "?al ! i = Fin l" "0 \<le> l" "l \<le> G"
        by blast
      from gl(5) half have "l + eps10 \<le> float_max" by linarith
      with rsi_value_bounds [of g l] gl o True show ?thesis by simp
    next
      case False
      then have "\<not> nat period \<le> i + 1" by simp
      with ewm_mean_nonneg [OF a room mp gs ig] have "?ag ! i = NaN" by blast
      with o False show ?thesis by (simp add: fsub_def)
    qed
  qed
  moreover have "length ?out = length cs" by simp
  ultimately show ?thesis using r by blast
qed

text \<open>
  C7. For a series of finite values, each of magnitude at most
  \<open>float_max / (4 \<cdot> (period + 1))\<close> (so that neither a difference of two values nor
  the weighted sums of the smoothing come near the overflow), and a period of at least
  1, \<open>rsi\<close> returns a series of the same length; it is unset (NaN) at the positions
  that have fewer than \<open>period\<close> observations behind them, and at every other position
  its value lies in \<open>[0, 100]\<close>.  (The period 0 raises ZeroDivisionError, a negative
  one ValueError.)
\<close>

theorem rsi_bounded:
  assumes p: "1 \<le> period"
    and b: "\<forall>x\<in>set cs. 4 * (real_of_int period + 1) * \<bar>x\<bar> \<le> float_max"
  shows "\<exists>out. rsi (map Fin cs) period = Inr out \<and> length out = length cs
           \<and> (\<forall>i<length cs.
                 (int i + 1 < period \<longrightarrow> out ! i = NaN)
               \<and> (period \<le> int i + 1 \<longrightarrow> (\<exists>v. out ! i = Fin v \<and> 0 \<le> v \<and> v \<le> 100)))"
proof (rule rsi_values [OF p])
  show "\<forall>x\<in>set cs. 2 * (real_of_int period + 1) * \<bar>x\<bar> \<le> float_max"
  proof
    fix x assume "x \<in> set cs"
    define z where "z = (real_of_int period + 1) * \<bar>x\<bar>"
    from \<open>x \<in> set cs\<close> b have "4 * (real_of_int period + 1) * \<bar>x\<bar> \<le> float_max" by blast
    then have "4 * z \<le> float_max" by (simp add: z_def algebra_simps)
    moreover have "0 \<le> z" unfolding z_def using p by simp
    ultimately have "2 * z \<le> float_max" by linarith
    then show "2 * (real_of_int period + 1) * \<bar>x\<bar> \<le> float_max"
      by (simp add: z_def algebra_simps)
  qed
qed

theorem rsi_bounded_witness:
  "(1 :: int) \<le> 2
   \<and> (\<exists>out. rsi (map Fin [1, 2, 1]) 2 = Inr out \<and> length out = 3 \<and> out ! 0 = NaN
          \<and> (\<exists>v. out ! 2 = Fin v \<and> 0 \<le> v \<and> v \<le> 100))"
proof -
  have b: "\<forall>x\<in>set [1, 2, 1 :: real]. 4 * (real_of_int 2 + 1) * \<bar>x\<bar> \<le> float_max"
    by (simp add: float_max_def)
  from rsi_bounded [of 2 "[1, 2, 1]", OF _ b] obtain out
    where o: "rsi (map Fin [1, 2, 1]) 2 = Inr out" "length out = length [1, 2, 1 :: real]"
      and n: "\<forall>i<length [1, 2, 1 :: real].
                 (int i + 1 < 2 \<longrightarrow> out ! i = NaN)
               \<and> (2 \<le> int i + 1 \<longrightarrow> (\<exists>v. out ! i = Fin v \<and> 0 \<le> v \<and> v \<le> 100))"
    by auto
  from n [rule_format, of 0] have "out ! 0 = NaN" by simp
  moreover from n [rule_format, of 2] have "\<exists>v. out ! 2 = Fin v \<and> 0 \<le> v \<and> v \<le> 100" by simp
  ultimately show ?thesis using o by simp
qed

text \<open>
  Three finite values, the largest finite double with alternating sign, and the period
  2.  Both differences overflow, to \<open>-\<infinity>\<close> and \<open>+\<infinity>\<close>; the loss at index 1 is
  infinite, the smoothing takes it for a missing value, and the index is unset at
  position 1, which has two observations behind it.
\<close>

lemma diff_overflow:
  "diff [Fin float_max, Fin (- float_max), Fin float_max] = [NaN, NInf, PInf]"
proof -
  have t: "overflow_threshold \<le> float_max + float_max"
    by (simp add: float_max_def overflow_threshold_def)
  then have "to_float (float_max + float_max) = PInf" by (simp add: to_float_def)
  moreover have "to_float (- float_max - float_max) = NInf"
    using t float_max_pos float_max_less_threshold by (simp add: to_float_def)
  ultimately show ?thesis
    by (simp add: diff_def shift_def fsub_def del: fadd.simps(1))
       (simp add: upt_rec [of 0] upt_rec [of 1] upt_rec [of 2])
qed

theorem rsi_overflow:
  "rsi [Fin float_max, Fin (- float_max), Fin float_max] 2 = Inr [NaN, NaN, Fin 0]"
  unfolding rsi_def Let_def diff_overflow
  by (simp add: ewm_mean_def Let_def fgt_def fsub_def eps10_def to_float_small)

section \<open>The feature table after the drop-NaN step\<close>


declare str_nat.simps [simp del]

lemma ebind_Inr [simp]: "ebind (Inr x) f = f x"
  by (simp add: ebind_def)

lemma sma_pos: "1 \<le> p \<Longrightarrow> sma xs p = Inr (rolling (nat p) 1 np_mean xs)"
  by (simp add: sma_def)

lemma ema_pos: "1 \<le> p \<Longrightarrow> ema xs p = Inr (ewm_mean (2 / (real_of_int p + 1)) False 1 xs)"
  by (simp add: ema_def)

lemma rsi_pos: "1 \<le> p \<Longrightarrow> \<exists>out. rsi xs p = Inr out"
  by (simp add: rsi_def Let_def)

lemma macd_pos: "1 \<le> a \<Longrightarrow> 1 \<le> b \<Longrightarrow> 1 \<le> c \<Longrightarrow> \<exists>m s h. macd xs a b c = Inr (m, s, h)"
  by (simp add: macd_def ema_pos Let_def)

lemma bollinger_pos: "1 \<le> p \<Longrightarrow> \<exists>u m l. bollinger_bands xs p k = Inr (u, m, l)"
  by (simp add: bollinger_bands_def sma_pos Let_def)

lemma adx_pos: "1 \<le> p \<Longrightarrow> \<exists>out. adx h l c p = Inr out"
  by (simp add: adx_def ema_pos Let_def)

lemma engineer_features_columns:
  fixes bars :: "bar list"
  defines "close' \<equiv> map close (sort_key date bars)"
  shows "\<exists>fr. engineer_features lib bars = Inr fr \<and> nrows fr = length bars
     \<and> map_of (cols fr) ''returns_20d'' = Some (map Num (pct_change 20 close'))
     \<and> map_of (cols fr) ''obv_change''
         = Some (map Num (pct_change 5 (obv close' (map volume (sort_key date bars)))))
     \<and> map_of (cols fr) ''target'' = Some (map IntC (gt_flag (shift (- 1) close') close'))
     \<and> map_of (cols fr) ''target_return''
         = Some (map Num (map (\<lambda>x. fmul x (Fin (- 1))) (pct_change (- 1) close')))"
proof -
  let ?close = "map close (sort_key date bars)"
  let ?high = "map high (sort_key date bars)"
  let ?low = "map low (sort_key date bars)"
  have "\<exists>out. rsi ?close 7 = Inr out" by (rule rsi_pos) simp
  then obtain r7 where r7: "rsi ?close 7 = Inr r7" ..
  have "\<exists>out. rsi ?close 14 = Inr out" by (rule rsi_pos) simp
  then obtain r14 where r14: "rsi ?close 14 = Inr r14" ..
  have "\<exists>out. rsi ?close 21 = Inr out" by (rule rsi_pos) simp
  then obtain r21 where r21: "rsi ?close 21 = Inr r21" ..
  have "\<exists>m s h. macd ?close 12 26 9 = Inr (m, s, h)" by (rule macd_pos) simp_all
  then obtain m s h where m: "macd ?close 12 26 9 = Inr (m, s, h)" by blast
  have "\<exists>u m l. bollinger_bands ?close 20 2 = Inr (u, m, l)" by (rule bollinger_pos) simp
  then obtain u mi l where b: "bollinger_bands ?close 20 2 = Inr (u, mi, l)" by blast
  have "\<exists>out. adx ?high ?low ?close 14 = Inr out" by (rule adx_pos) simp
  then obtain a where a: "adx ?high ?low ?close 14 = Inr a" ..
  show ?thesis
    unfolding engineer_features_def Let_def close'_def
    by (simp add: sma_pos ema_pos r7 r14 r21 m b a num_cols_def calculate_returns_def
        calculate_momentum_def calculate_volatility_def calculate_statistical_features_def
        str_nat.simps)
qed

lemma length_ffill_from [simp]: "length (ffill_from p xs) = length xs"
  by (induction xs arbitrary: p) simp_all

lemma length_pct_change [simp]: "length (pct_change p xs) = length xs"
  by (simp add: pct_change_def ffill_def Let_def)
























text \<open>
  C3. The value of \<open>target_return\<close> at a bar with a successor is the next bar's simple
  return \<open>(close[i+1] - close[i]) / close[i]\<close>, and \<open>target\<close> is 1 exactly when the
  close rises.  The code computes \<open>close.pct_change(-1) * -1\<close>, which is
  \<open>(close[i+1] - close[i]) / close[i+1]\<close>: for the closes 1 and 2 it gives 1/2, where
  the next-bar return is 1.  The label \<open>target\<close> is as stated.
\<close>

theorem target_return_two_bars:
  "column ''target_return'' (engineer_features lib two_bars) = Some [Num (Fin (1 / 2)), Num NaN]
   \<and> column ''target'' (engineer_features lib two_bars) = Some [IntC 1, IntC 0]"
proof -
  have s: "map close (sort_key date two_bars) = [Fin 1, Fin 2]"
    by (simp add: two_bars_def)
  have p: "pct_change (- 1) [Fin 1, Fin 2] = [Fin (- (1 / 2)), NaN]"
    by (simp add: pct_change_def ffill_def shift_def fsub_def to_float_small)
  have g: "gt_flag (shift (- 1) [Fin 1, Fin 2]) [Fin 1, Fin 2] = [1, 0]"
    by (simp add: gt_flag_def shift_def fgt_def)
  from engineer_features_columns [of lib two_bars] show ?thesis
    unfolding s by (auto simp: column_def p g to_float_small)
qed

end
